theory Spec2Isabelle
  imports Main
begin

section \<open>JavaScript values the translator relies on\<close>

text \<open>
  The translator throws two kinds of exception: an \<open>Error\<close> it builds itself, with a
  message, and the \<open>TypeError\<close> the JavaScript runtime raises when a property of
  \<open>undefined\<close> is read (\<open>name[0].toUpperCase()\<close> on an empty name,
  \<open>frag.selectionSet\<close> on a fragment that is not in the map).
\<close>

datatype error = Error string | TypeError

text \<open>A computation that cannot loop: either the exception or the value.\<close>

definition bindE :: "error + 'a \<Rightarrow> ('a \<Rightarrow> error + 'b) \<Rightarrow> error + 'b" where
  "bindE m f = (case m of Inl e \<Rightarrow> Inl e | Inr x \<Rightarrow> f x)"

text \<open>
  A computation that recurses through the fragment map gets fuel; \<open>None\<close> is "the fuel
  ran out", \<open>Some (Inl e)\<close> is a thrown exception, \<open>Some (Inr v)\<close> a returned value.
\<close>

type_synonym 'a result = "(error + 'a) option"

definition ok :: "'a \<Rightarrow> 'a result" where
  "ok x = Some (Inr x)"

definition throw :: "error \<Rightarrow> 'a result" where
  "throw e = Some (Inl e)"

definition bindR :: "'a result \<Rightarrow> ('a \<Rightarrow> 'b result) \<Rightarrow> 'b result" where
  "bindR m f = (case m of None \<Rightarrow> None | Some (Inl e) \<Rightarrow> Some (Inl e) | Some (Inr x) \<Rightarrow> f x)"

definition liftE :: "error + 'a \<Rightarrow> 'a result" where
  "liftE m = Some m"

text \<open>
  \<open>String.prototype.toUpperCase\<close> and \<open>toLowerCase\<close>, on the ASCII letters GraphQL
  names are made of (\<open>[_A-Za-z][_0-9A-Za-z]*\<close>); every other character is unchanged.
\<close>

definition toUpperCase_char :: "char \<Rightarrow> char" where
  "toUpperCase_char c =
     (case map_of (zip ''abcdefghijklmnopqrstuvwxyz'' ''ABCDEFGHIJKLMNOPQRSTUVWXYZ'') c of
        Some u \<Rightarrow> u | None \<Rightarrow> c)"

definition toLowerCase_char :: "char \<Rightarrow> char" where
  "toLowerCase_char c =
     (case map_of (zip ''ABCDEFGHIJKLMNOPQRSTUVWXYZ'' ''abcdefghijklmnopqrstuvwxyz'') c of
        Some u \<Rightarrow> u | None \<Rightarrow> c)"

definition toLowerCase :: "string \<Rightarrow> string" where
  "toLowerCase s = map toLowerCase_char s"

text \<open>
  \<open>s[0].toUpperCase() + s.substr(1)\<close>: on the empty string \<open>s[0]\<close> is \<open>undefined\<close>
  and the call throws a \<open>TypeError\<close>.
\<close>

fun upperFirst :: "string \<Rightarrow> error + string" where
  "upperFirst [] = Inl TypeError"
| "upperFirst (c # cs) = Inr (toUpperCase_char c # cs)"

text \<open>\<open>s[0].toLowerCase() + s.substr(1)\<close>.\<close>

fun lowerFirst :: "string \<Rightarrow> error + string" where
  "lowerFirst [] = Inl TypeError"
| "lowerFirst (c # cs) = Inr (toLowerCase_char c # cs)"

text \<open>\<open>v[0].toUpperCase() + v.substr(1).toLowerCase()\<close>, the constructor suffix of an enum value.\<close>

fun upperFirstLowerRest :: "string \<Rightarrow> error + string" where
  "upperFirstLowerRest [] = Inl TypeError"
| "upperFirstLowerRest (c # cs) = Inr (toUpperCase_char c # toLowerCase cs)"

text \<open>\<open>Array.prototype.join\<close>.\<close>

fun join :: "string \<Rightarrow> string list \<Rightarrow> string" where
  "join sep [] = []"
| "join sep [x] = x"
| "join sep (x # y # ys) = x @ sep @ join sep (y # ys)"

text \<open>The backslash and the line feed, which a string literal cannot hold.\<close>

abbreviation bs :: string where
  "bs \<equiv> [CHR 0x5C]"

abbreviation nl :: string where
  "nl \<equiv> [CHR 0x0A]"

text \<open>String concatenation with a value that may be \<open>undefined\<close>.\<close>

definition jsString :: "string option \<Rightarrow> string" where
  "jsString v = (case v of None \<Rightarrow> ''undefined'' | Some s \<Rightarrow> s)"

text \<open>\<open>xs.map(f)\<close> where \<open>f\<close> may throw: the first exception, in order, ends the loop.\<close>

fun mapE :: "('a \<Rightarrow> error + 'b) \<Rightarrow> 'a list \<Rightarrow> error + 'b list" where
  "mapE f [] = Inr []"
| "mapE f (x # xs) = bindE (f x) (\<lambda>y. bindE (mapE f xs) (\<lambda>ys. Inr (y # ys)))"

section \<open>The schema's types and the Elm syntax tree\<close>

text \<open>
  The classes of \<open>graphql/type\<close> the translator tests with \<open>instanceof\<close>. An object,
  interface or input object carries its field map in declaration order (the order
  \<open>for (let fieldName in fieldMap)\<close> visits); an enum its values' names; a union the
  names of its member types (all the translator reads of \<open>union.getTypes()\<close>). A type
  is a finite tree: a schema type that refers to itself stands unfolded as deep as the
  document reaches into it. \<open>typeToElm\<close> and \<open>encoderForInputType\<close> follow every field
  of an object with no check for a type met before, so on a type that refers to itself
  they do not return (the call stack overflows); such a type is no value of this
  datatype, and what is proved of the two functions is proved of the types that are.
\<close>

datatype GraphQLType =
    GraphQLScalarType string
  | GraphQLEnumType string "string list"
  | GraphQLObjectType string "(string \<times> GraphQLType) list"
  | GraphQLInterfaceType string "(string \<times> GraphQLType) list"
  | GraphQLInputObjectType string "(string \<times> GraphQLType) list"
  | GraphQLUnionType string "string list"
  | GraphQLList GraphQLType
  | GraphQLNonNull GraphQLType

text \<open>\<open>type.constructor.name\<close>, which the "unexpected type" messages print.\<close>

fun constructorName :: "GraphQLType \<Rightarrow> string" where
  "constructorName (GraphQLScalarType n) = ''GraphQLScalarType''"
| "constructorName (GraphQLEnumType n vs) = ''GraphQLEnumType''"
| "constructorName (GraphQLObjectType n fs) = ''GraphQLObjectType''"
| "constructorName (GraphQLInterfaceType n fs) = ''GraphQLInterfaceType''"
| "constructorName (GraphQLInputObjectType n fs) = ''GraphQLInputObjectType''"
| "constructorName (GraphQLUnionType n ms) = ''GraphQLUnionType''"
| "constructorName (GraphQLList t) = ''GraphQLList''"
| "constructorName (GraphQLNonNull t) = ''GraphQLNonNull''"

text \<open>
  The classes of \<open>elm-ast\<close> the translator constructs: \<open>ElmTypeName(name)\<close>,
  \<open>ElmTypeRecord(fields, typeParam?)\<close>, \<open>ElmTypeApp(name, args)\<close> and
  \<open>ElmFieldDecl(name, type)\<close>.
\<close>

datatype ElmType =
    ElmTypeName string
  | ElmTypeRecord "(string \<times> ElmType) list" "string option"
  | ElmTypeApp string "ElmType list"

type_synonym ElmFieldDecl = "string \<times> ElmType"

text \<open>
  \<open>ElmParameterDecl(name, type)\<close>, and the declarations \<open>ElmTypeDecl(name, constructors)\<close>,
  \<open>ElmFunctionDecl(name, parameters, returnType, body)\<close> and
  \<open>ElmTypeAliasDecl(name, type, typeParams)\<close>; an \<open>ElmExpr\<close> is its text.
\<close>

datatype ElmDecl =
    ElmTypeDecl string "string list"
  | ElmFunctionDecl string "(string \<times> ElmType) list" ElmType string
  | ElmTypeAliasDecl string ElmType "string list"

section \<open>\<open>elmSafeName\<close> and \<open>typeToElm\<close>\<close>

definition elmSafeName :: "string \<Rightarrow> string" where
  "elmSafeName graphQlName =
     (if graphQlName = ''__typename'' then ''typename_''
      else if graphQlName = ''type'' then ''type_''
      else if graphQlName = ''Task'' then ''Task_''
      else if graphQlName = ''List'' then ''List_''
      else if graphQlName = ''Http'' then ''Http_''
      else if graphQlName = ''GraphQL'' then ''GraphQL_''
      else graphQlName)"

text \<open>The \<open>switch (type.name)\<close> of \<open>typeToElm\<close> on a scalar.\<close>

definition scalarToElm :: "string \<Rightarrow> ElmType" where
  "scalarToElm n =
     (if n = ''Int'' then ElmTypeName ''Int''
      else if n = ''Float'' then ElmTypeName ''Float''
      else if n = ''Boolean'' then ElmTypeName ''Bool''
      else if n = ''ID'' \<or> n = ''DateTime'' then ElmTypeName ''String''
      else if n = ''String'' then ElmTypeName ''String''
      else ElmTypeName ''String'')"

text \<open>
  The last statement of \<open>typeToElm\<close>: the \<open>Maybe\<close> wrapper, for a type that is neither
  a list nor a non-null and is not in a non-null context.
\<close>

definition wrapMaybe :: "bool \<Rightarrow> ElmType \<Rightarrow> ElmType" where
  "wrapMaybe isNonNull t = (if \<not> isNonNull then ElmTypeApp ''Maybe'' [t] else t)"

fun typeToElm :: "GraphQLType \<Rightarrow> bool \<Rightarrow> error + ElmType"
  and typeToElmFields :: "(string \<times> GraphQLType) list \<Rightarrow> error + ElmFieldDecl list"
where
  "typeToElm (GraphQLNonNull t) isNonNull = typeToElm t True"
| "typeToElm (GraphQLScalarType n) isNonNull = Inr (wrapMaybe isNonNull (scalarToElm n))"
| "typeToElm (GraphQLEnumType n vs) isNonNull =
     bindE (upperFirst n) (\<lambda>name. Inr (wrapMaybe isNonNull (ElmTypeName name)))"
| "typeToElm (GraphQLList t) isNonNull =
     bindE (typeToElm t True) (\<lambda>elem. Inr (ElmTypeApp ''List'' [elem]))"
| "typeToElm (GraphQLObjectType n fs) isNonNull =
     bindE (typeToElmFields fs) (\<lambda>fields. Inr (wrapMaybe isNonNull (ElmTypeRecord fields None)))"
| "typeToElm (GraphQLInterfaceType n fs) isNonNull =
     bindE (typeToElmFields fs) (\<lambda>fields. Inr (wrapMaybe isNonNull (ElmTypeRecord fields None)))"
| "typeToElm (GraphQLInputObjectType n fs) isNonNull =
     bindE (typeToElmFields fs) (\<lambda>fields. Inr (wrapMaybe isNonNull (ElmTypeRecord fields None)))"
| "typeToElm (GraphQLUnionType n ms) isNonNull = Inl (Error (''Unexpected: '' @ ''GraphQLUnionType''))"
| "typeToElmFields [] = Inr []"
| "typeToElmFields ((fieldName, t) # rest) =
     bindE (typeToElm t False) (\<lambda>ft.
     bindE (typeToElmFields rest) (\<lambda>fields. Inr ((elmSafeName fieldName, ft) # fields)))"

section \<open>The leaf decoder and the variable encoder\<close>

text \<open>The \<open>switch (type.name)\<close> of \<open>leafTypeToDecoder\<close> on a scalar.\<close>

definition scalarToDecoder :: "string \<Rightarrow> string" where
  "scalarToDecoder n =
     (if n = ''Int'' then ''int''
      else if n = ''Float'' then ''float''
      else if n = ''Boolean'' then ''bool''
      else if n = ''ID'' \<or> n = ''DateTime'' then ''string''
      else if n = ''String'' then ''string''
      else ''string'')"

text \<open>
  \<open>leafTypeToDecoder\<close>, on the type in scope, which is \<open>undefined\<close> for a field the
  parent type does not have: then \<open>(<any>type).name\<close> throws a \<open>TypeError\<close>. The name
  of a list or of a non-null is \<open>undefined\<close>.
\<close>

fun typeNameOrUndefined :: "GraphQLType \<Rightarrow> string option" where
  "typeNameOrUndefined (GraphQLScalarType n) = Some n"
| "typeNameOrUndefined (GraphQLEnumType n vs) = Some n"
| "typeNameOrUndefined (GraphQLObjectType n fs) = Some n"
| "typeNameOrUndefined (GraphQLInterfaceType n fs) = Some n"
| "typeNameOrUndefined (GraphQLInputObjectType n fs) = Some n"
| "typeNameOrUndefined (GraphQLUnionType n ms) = Some n"
| "typeNameOrUndefined (GraphQLList t) = None"
| "typeNameOrUndefined (GraphQLNonNull t) = None"

definition leafTypeToDecoder :: "GraphQLType option \<Rightarrow> error + string" where
  "leafTypeToDecoder ty =
     (let type = (case ty of Some (GraphQLNonNull t) \<Rightarrow> Some t | _ \<Rightarrow> ty) in
      case type of
        Some (GraphQLScalarType n) \<Rightarrow> Inr (scalarToDecoder n)
      | Some (GraphQLEnumType n vs) \<Rightarrow> Inr (toLowerCase n @ ''Decoder'')
      | Some t \<Rightarrow> Inl (Error (''not a leaf type: '' @ jsString (typeNameOrUndefined t)))
      | None \<Rightarrow> Inl TypeError)"

text \<open>The \<open>switch (type.name)\<close> of \<open>encoderForInputType\<close> on a scalar.\<close>

definition scalarToEncoder :: "string \<Rightarrow> string" where
  "scalarToEncoder n =
     (if n = ''Int'' then ''Json.Encode.int ''
      else if n = ''Float'' then ''Json.Encode.float ''
      else if n = ''Boolean'' then ''Json.Encode.bool ''
      else if n = ''ID'' \<or> n = ''DateTime'' then ''Json.Encode.string ''
      else if n = ''String'' then ''Json.Encode.string ''
      else ''Json.Encode.string '')"

text \<open>One pair of the table an enum's encoder looks the wire name up in.\<close>

definition enumTuple :: "string \<Rightarrow> string \<Rightarrow> error + string" where
  "enumTuple name v =
     bindE (upperFirstLowerRest v) (\<lambda>ctor.
       Inr (''(\"'' @ name @ ''_'' @ ctor @ ''\", \"'' @ v @ ''\")''))"

text \<open>
  \<open>encoderForInputType(type, isNonNull, path)\<close>. \<open>path\<close> is optional, and the call for
  a variable with a default value leaves it out; \<open>isNonNull\<close> is never read.
  \<open>encoderForUnwrapped\<close> is the chain of \<open>instanceof\<close> tests on the type after the
  non-null is taken off, with \<open>value\<close> the text of the value to encode.
\<close>

fun encoderForInputType :: "GraphQLType \<Rightarrow> bool \<Rightarrow> string option \<Rightarrow> error + string"
  and encoderForUnwrapped :: "GraphQLType \<Rightarrow> string option \<Rightarrow> error + string"
  and fieldEncoders :: "(string \<times> GraphQLType) list \<Rightarrow> string option \<Rightarrow> error + string list"
where
  "encoderForInputType (GraphQLNonNull t) isNonNull path = encoderForUnwrapped t path"
| "encoderForInputType t isNonNull path =
     bindE (encoderForUnwrapped t (Some ''o'')) (\<lambda>encoder.
       Inr (''(maybeEncode ('' @ bs @ ''o -> '' @ encoder @ '') '' @ jsString path @ '')''))"
| "encoderForUnwrapped (GraphQLInputObjectType n fs) value =
     bindE (fieldEncoders fs value) (\<lambda>encs.
       Inr (''(Json.Encode.object ['' @ join '', '' encs @ ''])''))"
| "encoderForUnwrapped (GraphQLList t) value =
     bindE (encoderForInputType t True (Some ''x'')) (\<lambda>elem.
       Inr (''(Json.Encode.list (List.map ('' @ bs @ ''x -> '' @ elem @ '') '' @ jsString value @ ''))''))"
| "encoderForUnwrapped (GraphQLScalarType n) value = Inr (scalarToEncoder n @ jsString value)"
| "encoderForUnwrapped (GraphQLEnumType name vs) value =
     bindE (mapE (enumTuple name) vs) (\<lambda>tuples.
       Inr (''Json.Encode.string <| Maybe.withDefault \"\" <| Maybe.map Tuple.second <| List.head <| ('' @ bs @ ''s -> List.filter (Tuple.first >> (==)(s)) ''
            @ ''['' @ join '','' tuples @ '']'' @ '' ) <| toString '' @ jsString value))"
| "encoderForUnwrapped t value = Inl (Error (''not implemented: '' @ constructorName t))"
| "fieldEncoders [] value = Inr []"
| "fieldEncoders ((fieldName, t) # rest) value =
     bindE (encoderForInputType t False (Some (jsString value @ ''.'' @ fieldName))) (\<lambda>enc.
     bindE (fieldEncoders rest value) (\<lambda>encs.
       Inr ((''(\"'' @ fieldName @ ''\", '' @ enc @ '')'') # encs)))"

section \<open>The query document\<close>

text \<open>
  The nodes of \<open>graphql/language\<close> the translator reads. A field has an optional alias,
  a name and an optional selection set; an inline fragment an optional type condition.
  Arguments and directives are never read.
\<close>

datatype Selection =
    Field "string option" string "Selection list option"
  | FragmentSpread string
  | InlineFragment "string option" "Selection list"

datatype TypeNode = NamedType string | ListType TypeNode | NonNullType TypeNode

datatype OperationKind = OpQuery | OpMutation | OpSubscription

text \<open>A variable definition: its name, its type node, and whether \<open>defaultValue != null\<close>.\<close>

record VariableDefinition =
  varName :: string
  varType :: TypeNode
  hasDefaultValue :: bool

text \<open>
  \<open>OperationDefinition(operation, name?, variableDefinitions, selectionSet)\<close> and
  \<open>FragmentDefinition(name, typeCondition, selectionSet)\<close>; a document is the list of
  its definitions.
\<close>

datatype Definition =
    OperationDefinition OperationKind "string option" "VariableDefinition list" "Selection list"
  | FragmentDefinition string string "Selection list"

fun selectionSetOf :: "Definition \<Rightarrow> Selection list" where
  "selectionSetOf (OperationDefinition operation name vars selSet) = selSet"
| "selectionSetOf (FragmentDefinition name typeCondition selSet) = selSet"

fun typeConditionOf :: "Definition \<Rightarrow> string option" where
  "typeConditionOf (OperationDefinition operation name vars selSet) = None"
| "typeConditionOf (FragmentDefinition name typeCondition selSet) = Some typeCondition"

fun operationText :: "OperationKind \<Rightarrow> string" where
  "operationText OpQuery = ''query''"
| "operationText OpMutation = ''mutation''"
| "operationText OpSubscription = ''subscription''"

text \<open>
  A JavaScript object used as a dictionary that is later iterated (\<open>for (name in obj)\<close>):
  keys in insertion order, and an assignment to a key that is present replaces the
  value where it stands. (GraphQL names do not look like array indices, which
  JavaScript would order first; a name that is a property of \<open>Object.prototype\<close>,
  such as \<open>constructor\<close>, is taken not to occur.)
\<close>

fun objSet :: "string \<Rightarrow> 'v \<Rightarrow> (string \<times> 'v) list \<Rightarrow> (string \<times> 'v) list" where
  "objSet k v [] = [(k, v)]"
| "objSet k v ((k', v') # rest) = (if k' = k then (k, v) # rest else (k', v') # objSet k v rest)"

text \<open>\<open>FragmentDefinitionMap\<close>, only ever looked up by name.\<close>

type_synonym FragmentDefinitionMap = "string \<rightharpoonup> Definition"

section \<open>The schema and \<open>TypeInfo\<close>\<close>

text \<open>
  What the translator reads of a \<open>GraphQLSchema\<close>: the three root types, the type map
  behind \<open>schema.getType(name)\<close>, and the types of the introspection fields
  \<open>__schema\<close> and \<open>__type\<close> of the query root, which \<open>graphql/type\<close> defines.
\<close>

record GraphQLSchema =
  queryType :: "GraphQLType option"
  mutationType :: "GraphQLType option"
  subscriptionType :: "GraphQLType option"
  schemaTypeMap :: "(string \<times> GraphQLType) list"
  rootMetaFields :: "(string \<times> GraphQLType) list"

text \<open>\<open>typeFromAST(schema, typeNode)\<close> of \<open>graphql/utilities\<close>.\<close>

fun typeFromAST :: "GraphQLSchema \<Rightarrow> TypeNode \<Rightarrow> GraphQLType option" where
  "typeFromAST schema (ListType t) = map_option GraphQLList (typeFromAST schema t)"
| "typeFromAST schema (NonNullType t) = map_option GraphQLNonNull (typeFromAST schema t)"
| "typeFromAST schema (NamedType n) = map_of (schemaTypeMap schema) n"

text \<open>\<open>getNamedType\<close> and \<open>isCompositeType\<close> of \<open>graphql/type\<close>.\<close>

fun getNamedType :: "GraphQLType \<Rightarrow> GraphQLType" where
  "getNamedType (GraphQLList t) = getNamedType t"
| "getNamedType (GraphQLNonNull t) = getNamedType t"
| "getNamedType t = t"

fun isCompositeType :: "GraphQLType \<Rightarrow> bool" where
  "isCompositeType (GraphQLObjectType n fs) = True"
| "isCompositeType (GraphQLInterfaceType n fs) = True"
| "isCompositeType (GraphQLUnionType n ms) = True"
| "isCompositeType t = False"

text \<open>
  \<open>getFieldDef(schema, parentType, fieldNode)\<close> of \<open>TypeInfo\<close>, returning the field's
  type: the introspection fields first, then the parent's own field map.
\<close>

fun fieldsOf :: "GraphQLType \<Rightarrow> (string \<times> GraphQLType) list option" where
  "fieldsOf (GraphQLObjectType n fs) = Some fs"
| "fieldsOf (GraphQLInterfaceType n fs) = Some fs"
| "fieldsOf t = None"

definition getFieldDef :: "GraphQLSchema \<Rightarrow> GraphQLType \<Rightarrow> string \<Rightarrow> GraphQLType option" where
  "getFieldDef schema parentType name =
     (if name = ''__schema'' \<and> queryType schema = Some parentType
        then map_of (rootMetaFields schema) ''__schema''
      else if name = ''__type'' \<and> queryType schema = Some parentType
        then map_of (rootMetaFields schema) ''__type''
      else if name = ''__typename'' \<and> isCompositeType parentType
        then Some (GraphQLNonNull (GraphQLScalarType ''String''))
      else case fieldsOf parentType of
             Some fs \<Rightarrow> map_of fs name
           | None \<Rightarrow> None)"

text \<open>
  \<open>TypeInfo\<close> is the stateful object every walker shares: a stack of the types in
  scope and a stack of parent types, the top of each at the head of the list.
  \<open>enter\<close> pushes according to the node's kind and \<open>leave\<close> pops (nothing, on an
  empty stack); the kinds the translator enters are a selection set, a field, an
  operation and a fragment (inline or defined).
\<close>

record TypeInfo =
  typeStack :: "GraphQLType option list"
  parentTypeStack :: "GraphQLType option list"

definition newTypeInfo :: TypeInfo where
  "newTypeInfo = \<lparr> typeStack = [], parentTypeStack = [] \<rparr>"

definition getType :: "TypeInfo \<Rightarrow> GraphQLType option" where
  "getType info = (case typeStack info of [] \<Rightarrow> None | t # rest \<Rightarrow> t)"

definition getParentType :: "TypeInfo \<Rightarrow> GraphQLType option" where
  "getParentType info = (case parentTypeStack info of [] \<Rightarrow> None | t # rest \<Rightarrow> t)"

definition enterSelectionSet :: "TypeInfo \<Rightarrow> TypeInfo" where
  "enterSelectionSet info =
     (let namedType = map_option getNamedType (getType info);
          compositeType = (case namedType of
                             Some t \<Rightarrow> (if isCompositeType t then Some t else None)
                           | None \<Rightarrow> None)
      in info\<lparr> parentTypeStack := compositeType # parentTypeStack info \<rparr>)"

definition leaveSelectionSet :: "TypeInfo \<Rightarrow> TypeInfo" where
  "leaveSelectionSet info = info\<lparr> parentTypeStack := tl (parentTypeStack info) \<rparr>"

definition enterField :: "GraphQLSchema \<Rightarrow> string \<Rightarrow> TypeInfo \<Rightarrow> TypeInfo" where
  "enterField schema name info =
     (let fieldType = (case getParentType info of
                         Some parentType \<Rightarrow> getFieldDef schema parentType name
                       | None \<Rightarrow> None)
      in info\<lparr> typeStack := fieldType # typeStack info \<rparr>)"

definition enterOperation :: "GraphQLSchema \<Rightarrow> OperationKind \<Rightarrow> TypeInfo \<Rightarrow> TypeInfo" where
  "enterOperation schema operation info =
     (let type = (case operation of
                    OpQuery \<Rightarrow> queryType schema
                  | OpMutation \<Rightarrow> mutationType schema
                  | OpSubscription \<Rightarrow> subscriptionType schema)
      in info\<lparr> typeStack := type # typeStack info \<rparr>)"

definition enterFragment :: "GraphQLSchema \<Rightarrow> string option \<Rightarrow> TypeInfo \<Rightarrow> TypeInfo" where
  "enterFragment schema typeCondition info =
     (let outputType = (case typeCondition of
                          Some n \<Rightarrow> typeFromAST schema (NamedType n)
                        | None \<Rightarrow> getType info)
      in info\<lparr> typeStack := outputType # typeStack info \<rparr>)"

text \<open>\<open>leave\<close> of a field, an operation or a fragment.\<close>

definition leaveType :: "TypeInfo \<Rightarrow> TypeInfo" where
  "leaveType info = info\<lparr> typeStack := tl (typeStack info) \<rparr>"

text \<open>
  The three \<open>instanceof\<close> tests every walker applies to the type in scope: take off
  a non-null, then a list, then a non-null.
\<close>

definition unwrapNonNull :: "GraphQLType option \<Rightarrow> GraphQLType option" where
  "unwrapNonNull ty = (case ty of Some (GraphQLNonNull t) \<Rightarrow> Some t | _ \<Rightarrow> ty)"

definition unwrapList :: "GraphQLType option \<Rightarrow> GraphQLType option" where
  "unwrapList ty = (case ty of Some (GraphQLList t) \<Rightarrow> Some t | _ \<Rightarrow> ty)"

definition isNonNullType :: "GraphQLType option \<Rightarrow> bool" where
  "isNonNullType ty = (case ty of Some (GraphQLNonNull t) \<Rightarrow> True | _ \<Rightarrow> False)"

definition isListType :: "GraphQLType option \<Rightarrow> bool" where
  "isListType ty = (case ty of Some (GraphQLList t) \<Rightarrow> True | _ \<Rightarrow> False)"

definition isUnionType :: "GraphQLType option \<Rightarrow> bool" where
  "isUnionType ty = (case ty of Some (GraphQLUnionType n ms) \<Rightarrow> True | _ \<Rightarrow> False)"

definition unionName :: "GraphQLType option \<Rightarrow> string" where
  "unionName ty = (case ty of Some (GraphQLUnionType n ms) \<Rightarrow> n | _ \<Rightarrow> [])"

section \<open>The result type of a selection set (\<open>query-to-elm\<close>)\<close>

text \<open>
  The loop every walker runs over the spread names it collected:
  \<open>type = new ElmTypeApp(spreadName[0].toUpperCase() + spreadName.substr(1) + '_', [type])\<close>.
\<close>

fun applySpreads :: "string list \<Rightarrow> ElmType \<Rightarrow> error + ElmType" where
  "applySpreads [] type = Inr type"
| "applySpreads (spreadName # rest) type =
     bindE (upperFirst spreadName) (\<lambda>n. applySpreads rest (ElmTypeApp (n @ ''_'') [type]))"

text \<open>
  \<open>walkSelectionSet\<close>, \<open>walkUnionSelectionSet\<close> and \<open>walkField\<close> of \<open>translateQuery\<close>,
  with the \<open>TypeInfo\<close> passed in and returned. The first argument of each is the fuel:
  a fragment spread under a union walks the selection set the fragment map gives, so
  the recursion is not on the document's structure.

  \<open>walkSelections\<close> is the \<open>for\<close> loop of \<open>walkSelectionSet\<close>, given the \<open>walkField\<close> it
  calls; the fields and the spread names come out in the order they were pushed.
\<close>

fun walkSelections ::
    "(string option \<Rightarrow> string \<Rightarrow> Selection list option \<Rightarrow> TypeInfo \<Rightarrow> (ElmFieldDecl \<times> TypeInfo) result)
      \<Rightarrow> Selection list \<Rightarrow> TypeInfo \<Rightarrow> ((ElmFieldDecl list \<times> string list) \<times> TypeInfo) result"
where
  "walkSelections field_walker [] info = ok (([], []), info)"
| "walkSelections field_walker (Field alias name selectionSet # sels) info =
     bindR (field_walker alias name selectionSet info) (\<lambda>(fieldDecl, info).
     bindR (walkSelections field_walker sels info) (\<lambda>((fields, spreads), info).
       ok ((fieldDecl # fields, spreads), info)))"
| "walkSelections field_walker (FragmentSpread name # sels) info =
     bindR (walkSelections field_walker sels info) (\<lambda>((fields, spreads), info).
       ok ((fields, name # spreads), info))"
| "walkSelections field_walker (InlineFragment typeCondition selectionSet # sels) info =
     (case typeCondition of
        None \<Rightarrow> throw TypeError
      | Some onType \<Rightarrow> throw (Error (''not implemented: InlineFragment on '' @ onType)))"

text \<open>
  The \<open>for\<close> loop of \<open>walkUnionSelectionSet\<close>, given the \<open>walkSelectionSet\<close> it calls,
  with the loop's \<open>typeMap\<close> and \<open>hasTypename\<close>. The type condition's name is read
  after the inline fragment's selection set has been walked.
\<close>

fun walkUnionSelections ::
    "(Selection list \<Rightarrow> TypeInfo \<Rightarrow> ((ElmFieldDecl list \<times> string list \<times> ElmType option) \<times> TypeInfo) result)
      \<Rightarrow> GraphQLSchema \<Rightarrow> FragmentDefinitionMap \<Rightarrow> Selection list
      \<Rightarrow> (string \<times> ElmType) list \<Rightarrow> bool \<Rightarrow> TypeInfo
      \<Rightarrow> (((string \<times> ElmType) list \<times> bool) \<times> TypeInfo) result"
where
  "walkUnionSelections selset_walker schema fdm [] typeMap hasTypename info =
     ok ((typeMap, hasTypename), info)"
| "walkUnionSelections selset_walker schema fdm (Field alias name selectionSet # sels) typeMap hasTypename info =
     walkUnionSelections selset_walker schema fdm sels typeMap (hasTypename \<or> name = ''__typename'') info"
| "walkUnionSelections selset_walker schema fdm (InlineFragment typeCondition selectionSet # sels) typeMap hasTypename info =
     bindR (selset_walker selectionSet (enterFragment schema typeCondition info))
       (\<lambda>((fields, spreads, union), info).
     bindR (liftE (applySpreads spreads (ElmTypeRecord fields None))) (\<lambda>type.
       case typeCondition of
         None \<Rightarrow> throw TypeError
       | Some onType \<Rightarrow>
           walkUnionSelections selset_walker schema fdm sels (objSet onType type typeMap) hasTypename
             (leaveType info)))"
| "walkUnionSelections selset_walker schema fdm (FragmentSpread name # sels) typeMap hasTypename info =
     (case fdm name of
        None \<Rightarrow> throw TypeError
      | Some frag \<Rightarrow>
          bindR (selset_walker (selectionSetOf frag)
                   (enterFragment schema (typeConditionOf frag) info))
            (\<lambda>((fields, spreads, union), info).
          bindR (liftE (applySpreads spreads (ElmTypeRecord fields None))) (\<lambda>type.
            walkUnionSelections selset_walker schema fdm sels (objSet name type typeMap) hasTypename
              (leaveType info))))"

fun walkSelectionSet ::
    "nat \<Rightarrow> GraphQLSchema \<Rightarrow> FragmentDefinitionMap \<Rightarrow> Selection list \<Rightarrow> TypeInfo
      \<Rightarrow> ((ElmFieldDecl list \<times> string list \<times> ElmType option) \<times> TypeInfo) result"
  and walkUnionSelectionSet ::
    "nat \<Rightarrow> GraphQLSchema \<Rightarrow> FragmentDefinitionMap \<Rightarrow> Selection list \<Rightarrow> TypeInfo
      \<Rightarrow> (ElmType \<times> TypeInfo) result"
  and walkField ::
    "nat \<Rightarrow> GraphQLSchema \<Rightarrow> FragmentDefinitionMap \<Rightarrow> string option \<Rightarrow> string
      \<Rightarrow> Selection list option \<Rightarrow> TypeInfo \<Rightarrow> (ElmFieldDecl \<times> TypeInfo) result"
where
  "walkSelectionSet 0 schema fdm selSet info0 = None"
| "walkSelectionSet (Suc n) schema fdm selSet info0 =
     (let info = enterSelectionSet info0;
          info_type = unwrapNonNull (unwrapList (unwrapNonNull (getType info)))
      in if isUnionType info_type then
           bindR (walkUnionSelectionSet n schema fdm selSet info) (\<lambda>(type, info).
             ok (([], [], Some type), leaveSelectionSet info))
         else
           bindR (walkSelections (\<lambda>alias name selectionSet info.
                      walkField n schema fdm alias name selectionSet info) selSet info)
             (\<lambda>((fields, spreads), info).
             ok ((fields, spreads, None), leaveSelectionSet info)))"
| "walkUnionSelectionSet 0 schema fdm selSet info = None"
| "walkUnionSelectionSet (Suc n) schema fdm selSet info =
     (let union = unwrapNonNull (unwrapList (unwrapNonNull (getType info))) in
      bindR (walkUnionSelections (\<lambda>selSet info. walkSelectionSet n schema fdm selSet info)
               schema fdm selSet [] False info) (\<lambda>((typeMap, hasTypename), info).
        if \<not> hasTypename then
          throw (Error (''must query field '' @ [CHR 0x27] @ ''__typename'' @ [CHR 0x27]
                        @ '' on union types (missing for '' @ [CHR 0x27] @ unionName union
                        @ [CHR 0x27] @ '')''))
        else ok (ElmTypeApp (unionName union) (map snd typeMap), info)))"
| "walkField 0 schema fdm alias fieldName selectionSet info0 = None"
| "walkField (Suc n) schema fdm alias fieldName selectionSet info0 =
     (let info = enterField schema fieldName info0;
          info_type = getType info;
          name = (case alias of Some a \<Rightarrow> elmSafeName a | None \<Rightarrow> elmSafeName fieldName)
      in case selectionSet of
           Some selSet \<Rightarrow>
             (let isMaybe = \<not> isNonNullType info_type;
                  isList = isListType (unwrapNonNull info_type)
              in bindR (walkSelectionSet n schema fdm selSet info) (\<lambda>((fields, spreads, union), info).
                 bindR (liftE (applySpreads spreads
                          (case union of Some u \<Rightarrow> u | None \<Rightarrow> ElmTypeRecord fields None))) (\<lambda>type.
                   let type = (if isList then ElmTypeApp ''List'' [type] else type);
                       type = (if isMaybe then ElmTypeApp ''Maybe'' [type] else type)
                   in ok ((name, type), leaveType info))))
         | None \<Rightarrow>
             (case getType info of
                None \<Rightarrow> throw (Error (''Unknown GraphQL field: '' @ fieldName))
              | Some t \<Rightarrow>
                  bindR (liftE (typeToElm t False)) (\<lambda>type. ok ((name, type), leaveType info))))"

section \<open>The decoder of a selection set (\<open>query-to-decoder\<close>)\<close>

text \<open>
  \<open>getSelectionSetFields\<close>: the sanitized names of the fields of a selection set, the
  fragment spreads expanded, each name once. Its \<open>info.enter\<close> and \<open>info.leave\<close> are
  balanced and it reads no type, so the \<open>TypeInfo\<close> is left out.
  \<open>selectionSetFieldsLoop\<close> is its \<open>for\<close> loop, with the array \<open>fields\<close> (here \<open>acc\<close>), given the
  function it calls on a spread fragment.
\<close>

fun pushNew :: "string list \<Rightarrow> string list \<Rightarrow> string list" where
  "pushNew acc [] = acc"
| "pushNew acc (name # names) =
     pushNew (if name \<in> set acc then acc else acc @ [name]) names"

fun selectionSetFieldsLoop ::
    "(Selection list \<Rightarrow> string list result) \<Rightarrow> FragmentDefinitionMap \<Rightarrow> Selection list
      \<Rightarrow> string list \<Rightarrow> string list result"
where
  "selectionSetFieldsLoop fields_of fdm [] acc = ok acc"
| "selectionSetFieldsLoop fields_of fdm (Field alias name selectionSet # sels) acc =
     (let name = (case alias of Some a \<Rightarrow> elmSafeName a | None \<Rightarrow> elmSafeName name) in
      selectionSetFieldsLoop fields_of fdm sels
        (if name \<in> set acc then acc else acc @ [name]))"
| "selectionSetFieldsLoop fields_of fdm (FragmentSpread spreadName # sels) acc =
     (case fdm spreadName of
        None \<Rightarrow> throw TypeError
      | Some def \<Rightarrow>
          bindR (fields_of (selectionSetOf def)) (\<lambda>names.
            selectionSetFieldsLoop fields_of fdm sels (pushNew acc names)))"
| "selectionSetFieldsLoop fields_of fdm (InlineFragment typeCondition selectionSet # sels) acc =
     throw (Error ''Should not happen'')"

fun getSelectionSetFields ::
    "nat \<Rightarrow> FragmentDefinitionMap \<Rightarrow> Selection list \<Rightarrow> string list result"
where
  "getSelectionSetFields 0 fdm selSet = None"
| "getSelectionSetFields (Suc n) fdm selSet =
     selectionSetFieldsLoop (\<lambda>selSet. getSelectionSetFields n fdm selSet) fdm selSet []"

text \<open>
  The record constructor a decoder maps over its fields:
  \<open>(\<bslash>a b -> ctor { a = a, b = b })\<close>, where \<open>ctor\<close> is empty for a plain record.
\<close>

definition shapeOf :: "string \<Rightarrow> string list \<Rightarrow> string" where
  "shapeOf ctor fieldNames =
     ''('' @ bs @ join '' '' fieldNames @ '' -> '' @ ctor @ ''{ ''
       @ join '', '' (map (\<lambda>f. f @ '' = '' @ f) fieldNames) @ '' })''"

text \<open>\<open>expr.split('\n').join(' ')\<close>: every line feed becomes a space.\<close>

definition oneLine :: "string \<Rightarrow> string" where
  "oneLine s = map (\<lambda>c. if c = CHR 0x0A then CHR '' '' else c) s"

text \<open>
  The \<open>for\<close> loop of the decoder's \<open>walkSelectionSet\<close>, given the \<open>walkField\<close> and the
  \<open>walkSelectionSet\<close> it calls. \<open>seenFields\<close> is the array the caller and every
  expanded fragment share; \<open>fields\<close> comes out in the order it was pushed.
\<close>

fun walkSelections_decoder ::
    "(string option \<Rightarrow> string \<Rightarrow> Selection list option \<Rightarrow> TypeInfo \<Rightarrow> (string \<times> TypeInfo) result)
      \<Rightarrow> (Selection list \<Rightarrow> string list \<Rightarrow> TypeInfo \<Rightarrow> ((string \<times> string list) \<times> TypeInfo) result)
      \<Rightarrow> FragmentDefinitionMap \<Rightarrow> Selection list \<Rightarrow> string list \<Rightarrow> TypeInfo
      \<Rightarrow> ((string list \<times> string list) \<times> TypeInfo) result"
where
  "walkSelections_decoder field_walker selset_walker fdm [] seenFields info =
     ok (([], seenFields), info)"
| "walkSelections_decoder field_walker selset_walker fdm (Field alias fieldName selectionSet # sels) seenFields info =
     (let name = (case alias of None \<Rightarrow> fieldName | Some a \<Rightarrow> a) in
      if name \<notin> set seenFields then
        bindR (field_walker alias fieldName selectionSet info) (\<lambda>(expr, info).
        bindR (walkSelections_decoder field_walker selset_walker fdm sels (seenFields @ [name]) info)
          (\<lambda>((fields, seenFields), info). ok ((expr # fields, seenFields), info)))
      else walkSelections_decoder field_walker selset_walker fdm sels seenFields info)"
| "walkSelections_decoder field_walker selset_walker fdm (FragmentSpread spreadName # sels) seenFields info =
     (case fdm spreadName of
        None \<Rightarrow> throw TypeError
      | Some fragmentDef \<Rightarrow>
          bindR (selset_walker (selectionSetOf fragmentDef) seenFields info)
            (\<lambda>((expr, seenFields), info).
          bindR (walkSelections_decoder field_walker selset_walker fdm sels seenFields info)
            (\<lambda>((fields, seenFields), info). ok ((expr # fields, seenFields), info))))"
| "walkSelections_decoder field_walker selset_walker fdm (InlineFragment typeCondition selectionSet # sels) seenFields info =
     throw (Error ''Should not happen'')"

text \<open>
  The \<open>for\<close> loop of the decoder's \<open>walkUnion\<close>, given the \<open>walkSelectionSet\<close> and the
  \<open>getSelectionSetFields\<close> it calls. Each inline fragment and each fragment spread
  appends one branch to \<open>decoder\<close>; the loop returns the branches in order, and
  \<open>walkUnion_decoder\<close> concatenates them.
\<close>

definition unionBranch :: "string \<Rightarrow> string \<Rightarrow> string list \<Rightarrow> string \<Rightarrow> string" where
  "unionBranch union_name typeName fieldNames fieldsExpr =
     nl @ ''            '' @ ''\"'' @ typeName @ ''\" -> ''
       @ ''(map '' @ shapeOf (elmSafeName (union_name @ ''_'' @ typeName) @ '' '') fieldNames
       @ '' '' @ oneLine fieldsExpr @ nl @ '')''"

fun walkUnionBranches ::
    "(Selection list \<Rightarrow> TypeInfo \<Rightarrow> ((string \<times> string list) \<times> TypeInfo) result)
      \<Rightarrow> (Selection list \<Rightarrow> string list result)
      \<Rightarrow> GraphQLSchema \<Rightarrow> FragmentDefinitionMap \<Rightarrow> string \<Rightarrow> Selection list \<Rightarrow> TypeInfo
      \<Rightarrow> (string list \<times> TypeInfo) result"
where
  "walkUnionBranches selset_walker fields_of schema fdm union_name [] info = ok ([], info)"
| "walkUnionBranches selset_walker fields_of schema fdm union_name (InlineFragment typeCondition selectionSet # sels) info =
     (case typeCondition of
        None \<Rightarrow> throw TypeError
      | Some onType \<Rightarrow>
          bindR (selset_walker selectionSet (enterFragment schema typeCondition info))
            (\<lambda>((fieldsExpr, seenFields), info).
          let info = leaveType info in
          bindR (fields_of selectionSet) (\<lambda>fieldNames.
          bindR (walkUnionBranches selset_walker fields_of schema fdm union_name sels info)
            (\<lambda>(branches, info).
              ok (unionBranch union_name onType fieldNames fieldsExpr # branches, info)))))"
| "walkUnionBranches selset_walker fields_of schema fdm union_name (Field alias name selectionSet # sels) info =
     (if name \<noteq> ''__typename'' then throw (Error (''Unexpected field: '' @ name))
      else walkUnionBranches selset_walker fields_of schema fdm union_name sels info)"
| "walkUnionBranches selset_walker fields_of schema fdm union_name (FragmentSpread spreadName # sels) info =
     (case fdm spreadName of
        None \<Rightarrow> throw TypeError
      | Some def \<Rightarrow>
          (case typeConditionOf def of
             None \<Rightarrow> throw TypeError
           | Some name \<Rightarrow>
               bindR (selset_walker (selectionSetOf def)
                        (enterFragment schema (typeConditionOf def) info))
                 (\<lambda>((fieldsExpr, seenFields), info).
               bindR (fields_of (selectionSetOf def)) (\<lambda>fieldNames.
               let info = leaveType info in
               bindR (walkUnionBranches selset_walker fields_of schema fdm union_name sels info)
                 (\<lambda>(branches, info).
                   ok (unionBranch union_name name fieldNames fieldsExpr # branches, info))))))"

text \<open>
  The decoder's \<open>walkSelectionSet\<close>, \<open>walkField\<close> and \<open>walkUnion\<close>, with the fuel first
  (a fragment spread is expanded through the fragment map) and the \<open>TypeInfo\<close> passed
  in and returned. \<open>walkSelectionSet_decoder\<close> also returns \<open>seenFields\<close>, which the
  source mutates in place. \<open>walkUnion\<close> returns without \<open>info.leave(field)\<close>.
\<close>

fun walkSelectionSet_decoder ::
    "nat \<Rightarrow> GraphQLSchema \<Rightarrow> FragmentDefinitionMap \<Rightarrow> Selection list \<Rightarrow> string list \<Rightarrow> TypeInfo
      \<Rightarrow> ((string \<times> string list) \<times> TypeInfo) result"
  and walkField_decoder ::
    "nat \<Rightarrow> GraphQLSchema \<Rightarrow> FragmentDefinitionMap \<Rightarrow> string option \<Rightarrow> string
      \<Rightarrow> Selection list option \<Rightarrow> TypeInfo \<Rightarrow> (string \<times> TypeInfo) result"
  and walkUnion_decoder ::
    "nat \<Rightarrow> GraphQLSchema \<Rightarrow> FragmentDefinitionMap \<Rightarrow> string \<Rightarrow> Selection list option
      \<Rightarrow> TypeInfo \<Rightarrow> (string \<times> TypeInfo) result"
where
  "walkSelectionSet_decoder 0 schema fdm selSet seenFields info = None"
| "walkSelectionSet_decoder (Suc n) schema fdm selSet seenFields info =
     bindR (walkSelections_decoder
              (\<lambda>alias name selectionSet info. walkField_decoder n schema fdm alias name selectionSet info)
              (\<lambda>selSet seenFields info. walkSelectionSet_decoder n schema fdm selSet seenFields info)
              fdm selSet seenFields (enterSelectionSet info))
       (\<lambda>((fields, seenFields), info).
         ok ((join (nl @ ''        |> apply '') (filter (\<lambda>e. length e > 0) fields), seenFields),
             leaveSelectionSet info))"
| "walkField_decoder 0 schema fdm alias fieldName selectionSet info = None"
| "walkField_decoder (Suc n) schema fdm alias fieldName selectionSet info0 =
     (let info = enterField schema fieldName info0;
          typeInfo = getType info;
          isMaybe = \<not> isNonNullType typeInfo;
          typeInfo = unwrapNonNull typeInfo;
          originalName = (case alias of Some a \<Rightarrow> a | None \<Rightarrow> fieldName);
          prefix = (if isListType typeInfo then ''list '' else []);
          typeInfo = unwrapNonNull (unwrapList typeInfo)
      in if isUnionType typeInfo then
           walkUnion_decoder n schema fdm originalName selectionSet info
         else case selectionSet of
           Some selSet \<Rightarrow>
             bindR (walkSelectionSet_decoder n schema fdm selSet [] info) (\<lambda>((fieldsExpr, seenFields), info).
             let info = leaveType info in
             bindR (getSelectionSetFields n fdm selSet) (\<lambda>fieldNames.
               let left = ''(field \"'' @ originalName @ ''\" '' @ nl;
                   right = ''(map '' @ shapeOf [] fieldNames @ '' '' @ fieldsExpr @ ''))'';
                   right = (if prefix \<noteq> [] then ''('' @ prefix @ right @ '')'' else right);
                   right = (if isMaybe then ''('' @ ''maybe '' @ right @ '')'' else right)
               in ok (left @ ''        '' @ right, info)))
         | None \<Rightarrow>
             bindR (liftE (leafTypeToDecoder typeInfo)) (\<lambda>decoder.
               let right = ''(field \"'' @ originalName @ ''\" ('' @ prefix @ decoder @ ''))'';
                   right = (if isMaybe then ''(maybe '' @ right @ '')'' else right)
               in ok (right, leaveType info)))"
| "walkUnion_decoder 0 schema fdm originalName selectionSet info = None"
| "walkUnion_decoder (Suc n) schema fdm originalName selectionSet info =
     (let union_type = getType info;
          isMaybe = \<not> isNonNullType union_type;
          union_type = unwrapNonNull union_type;
          prefix = (if isListType union_type then ''list '' else []);
          union_type = unwrapNonNull (unwrapList union_type);
          union_name = unionName union_type
      in case selectionSet of
           None \<Rightarrow> throw TypeError
         | Some selSet \<Rightarrow>
             bindR (walkUnionBranches
                      (\<lambda>selSet info. walkSelectionSet_decoder n schema fdm selSet [] info)
                      (\<lambda>selSet. getSelectionSetFields n fdm selSet)
                      schema fdm union_name selSet info)
               (\<lambda>(branches, info).
                 let decoder = nl @ ''        ('' @ bs @ ''typename -> case typename of''
                                 @ concat branches
                                 @ nl @ ''            '' @ ''_ -> fail \"Unexpected union type\")'';
                     decoder = ''((field \"__typename\" string) |> andThen '' @ decoder @ '')'';
                     decoder = (if prefix \<noteq> [] then ''('' @ prefix @ decoder @ '')'' else decoder);
                     decoder = (if isMaybe then ''('' @ ''maybe '' @ decoder @ '')'' else decoder)
                 in ok (''(field \"'' @ originalName @ ''\" '' @ decoder @ '')'', info)))"

section \<open>Operations and fragments (\<open>query-to-elm\<close>)\<close>

text \<open>
  The decoder's \<open>walkOperationDefinition\<close>, which is all \<open>decoderForQuery\<close> runs for an
  operation, given the operation's kind, name, variables and selection set. It works
  on the translator's own \<open>TypeInfo\<close>. For each variable it
  builds the Elm type and prints it (\<open>typeToString\<close> of \<open>elm-ast\<close>, taken to return),
  and drops the text; for a subscription it returns \<open>undefined\<close>.
\<close>

fun checkVariableTypes :: "GraphQLSchema \<Rightarrow> VariableDefinition list \<Rightarrow> error + unit" where
  "checkVariableTypes schema [] = Inr ()"
| "checkVariableTypes schema (varDef # rest) =
     (case typeFromAST schema (varType varDef) of
        None \<Rightarrow> Inl TypeError
      | Some t \<Rightarrow> bindE (typeToElm t False) (\<lambda>type. checkVariableTypes schema rest))"

definition decoderForQuery ::
    "nat \<Rightarrow> GraphQLSchema \<Rightarrow> FragmentDefinitionMap \<Rightarrow> OperationKind \<Rightarrow> string option
      \<Rightarrow> VariableDefinition list \<Rightarrow> Selection list \<Rightarrow> TypeInfo
      \<Rightarrow> (string option \<times> TypeInfo) result"
where
  "decoderForQuery n schema fdm operation opName vars selSet info0 =
     (let info = enterOperation schema operation info0 in
      if operation = OpQuery \<or> operation = OpMutation then
        (let name = (case opName of Some v \<Rightarrow> v | None \<Rightarrow> ''AnonymousQuery'') in
         bindR (liftE (upperFirst name)) (\<lambda>resultType.
         bindR (walkSelectionSet_decoder n schema fdm selSet [] info) (\<lambda>((expr, seenFields), info).
         bindR (liftE (checkVariableTypes schema vars)) (\<lambda>u.
           ok (Some (''map '' @ resultType @ '' '' @ expr), leaveType info)))))
      else ok (None, info))"

text \<open>
  \<open>queryFragments\<close>: the fragments an operation's selection set spreads, and those
  they spread, in the order first met. \<open>visit\<close> reaches the spreads under fields and
  inline fragments; each spread looks its fragment up, stores it, and recurses into
  the fragment's selection set with no check for a cycle.
\<close>

fun foldR :: "('a \<Rightarrow> 's \<Rightarrow> 's result) \<Rightarrow> 'a list \<Rightarrow> 's \<Rightarrow> 's result" where
  "foldR f [] s = ok s"
| "foldR f (x # xs) s = bindR (f x s) (\<lambda>s. foldR f xs s)"

fun queryFragments ::
    "nat \<Rightarrow> FragmentDefinitionMap \<Rightarrow> Selection list \<Rightarrow> (string \<times> Definition) list
      \<Rightarrow> (string \<times> Definition) list result"
where
  "queryFragments 0 fdm selectionSet fragments = None"
| "queryFragments (Suc n) fdm selectionSet fragments =
     foldR (\<lambda>sel fragments.
              case sel of
                Field alias name None \<Rightarrow> ok fragments
              | Field alias name (Some selSet) \<Rightarrow> queryFragments n fdm selSet fragments
              | InlineFragment typeCondition selSet \<Rightarrow> queryFragments n fdm selSet fragments
              | FragmentSpread name \<Rightarrow>
                  (case fdm name of
                     None \<Rightarrow> throw TypeError
                   | Some frag \<Rightarrow>
                       queryFragments n fdm (selectionSetOf frag) (objSet name frag fragments)))
       selectionSet fragments"

text \<open>
  \<open>query.replace(/\s+/g, ' ')\<close>. A character of the model is a code point below 256, and
  of these the class \<open>\s\<close> holds the space, the tab, the line feed, the vertical tab,
  the form feed, the carriage return and the no-break space \<open>U+00A0\<close>; the white space
  above \<open>U+00FF\<close> that \<open>\s\<close> also matches has no character here. \<open>prev\<close> says that the
  character before was white space.
\<close>

definition isSpace :: "char \<Rightarrow> bool" where
  "isSpace c = (c \<in> set [CHR '' '', CHR 0x09, CHR 0x0A, CHR 0x0B, CHR 0x0C, CHR 0x0D, CHR 0xA0])"

fun collapseSpaces :: "bool \<Rightarrow> string \<Rightarrow> string" where
  "collapseSpaces prev [] = []"
| "collapseSpaces prev (c # cs) =
     (if isSpace c then (if prev then collapseSpaces True cs else CHR '' '' # collapseSpaces True cs)
      else c # collapseSpaces False cs)"

text \<open>
  The parameters of an operation: for each variable its name, its Elm type, its schema
  type and whether it has a default value. \<open>typeToElm(undefined)\<close> throws a
  \<open>TypeError\<close>.
\<close>

fun operationParameters ::
    "GraphQLSchema \<Rightarrow> VariableDefinition list \<Rightarrow> error + (string \<times> ElmType \<times> GraphQLType \<times> bool) list"
where
  "operationParameters schema [] = Inr []"
| "operationParameters schema (varDef # rest) =
     (case typeFromAST schema (varType varDef) of
        None \<Rightarrow> Inl TypeError
      | Some schemaType \<Rightarrow>
          bindE (typeToElm schemaType False) (\<lambda>type.
          bindE (operationParameters schema rest) (\<lambda>ps.
            Inr ((varName varDef, type, schemaType, hasDefaultValue varDef) # ps))))"

text \<open>
  One entry of the list \<open>Json.Encode.object\<close> is given: the variable's name and its
  encoder. A variable with a default value is encoded by a \<open>case\<close> on the parameter;
  the call that builds its \<open>Just\<close> branch passes no path.
\<close>

definition parameterEncoder :: "string \<times> ElmType \<times> GraphQLType \<times> bool \<Rightarrow> error + string" where
  "parameterEncoder p =
     (case p of (name, type, schemaType, hasDefault) \<Rightarrow>
        bindE (if hasDefault then
                 bindE (encoderForInputType schemaType True None) (\<lambda>enc.
                   Inr (''case params.'' @ name @ '' of''
                        @ nl @ ''                            Just val -> '' @ enc @ '' val''
                        @ nl @ ''                            Nothing -> Json.Encode.null''))
               else encoderForInputType schemaType True (Some (''params.'' @ name)))
          (\<lambda>encoder. Inr (''(\"'' @ name @ ''\", '' @ encoder @ '')'')))"

text \<open>
  \<open>walkOperationDefinition\<close>, given the operation's kind, name, variables and
  selection set. \<open>printNode\<close> stands for \<open>print\<close> of \<open>graphql/language\<close>;
  \<open>expose\<close> is the translator's list of exposed names, returned with its two new
  entries. The result \<open>None\<close> is the \<open>undefined\<close> a subscription falls through to.
  (\<open>collectFragments(def)\<close>, whose result only the decoder is handed and never
  reads, is left out.)
\<close>

definition walkOperationDefinition ::
    "nat \<Rightarrow> GraphQLSchema \<Rightarrow> FragmentDefinitionMap \<Rightarrow> (Definition \<Rightarrow> string) \<Rightarrow> string \<Rightarrow> bool
      \<Rightarrow> OperationKind \<Rightarrow> string option \<Rightarrow> VariableDefinition list \<Rightarrow> Selection list
      \<Rightarrow> string list \<Rightarrow> TypeInfo
      \<Rightarrow> ((ElmDecl list option \<times> string list) \<times> TypeInfo) result"
where
  "walkOperationDefinition n schema fdm printNode verb errorSpec
       operation opName vars selSet expose info0 =
     (let info = enterOperation schema operation info0;
          def = OperationDefinition operation opName vars selSet
      in if getType info = None then
           (case opName of
              None \<Rightarrow> throw TypeError
            | Some v \<Rightarrow> throw (Error (''GraphQL schema does not define '' @ operationText operation
                                      @ '' '' @ [CHR 0x27] @ v @ [CHR 0x27])))
         else if operation = OpQuery \<or> operation = OpMutation then
           (let name = (case opName of Some v \<Rightarrow> v | None \<Rightarrow> ''AnonymousQuery'') in
            bindR (liftE (upperFirst name)) (\<lambda>resultType.
            let responseType = (if errorSpec then ''(Response '' @ resultType @ '')'' else resultType) in
            bindR (walkSelectionSet n schema fdm selSet info) (\<lambda>((fields, spreads, union), info).
            bindR (liftE (operationParameters schema vars)) (\<lambda>parameters.
            bindR (liftE (lowerFirst name)) (\<lambda>funcName.
            bindR (queryFragments n fdm selSet []) (\<lambda>qFragments.
            let query = concat (map (\<lambda>(fragName, frag). printNode frag @ '' '') qFragments)
                          @ printNode def in
            bindR (liftE (lowerFirst resultType)) (\<lambda>decodeFunc.
            let decodeFuncName = decodeFunc @ ''Decoder'';
                expose = expose @ [funcName, resultType];
                elmParamsType = ElmTypeRecord (map (\<lambda>(pname, ptype, schemaType, hasDefault). (pname, ptype)) parameters) None;
                elmParamsDecl = (if length parameters > 0 then [(''params'', elmParamsType)] else []);
                methodParam = (if operation = OpQuery then ''\"'' @ verb @ ''\" '' else [])
            in
            bindR (liftE (mapE parameterEncoder parameters)) (\<lambda>encoders.
            let body = ''let graphQLQuery = \"\"\"'' @ collapseSpaces False query @ ''\"\"\" in'' @ nl
                       @ ''    let graphQLParams ='' @ nl
                       @ ''            Json.Encode.object'' @ nl
                       @ ''                [ ''
                       @ join (nl @ ''                , '') encoders @ nl
                       @ ''                ]'' @ nl
                       @ ''    in'' @ nl
                       @ ''    '' @ operationText operation @ '' '' @ methodParam
                       @ ''endpointUrl graphQLQuery \"'' @ name @ ''\" graphQLParams '' @ decodeFuncName
            in
            bindR (liftE (upperFirst resultType)) (\<lambda>resultTypeName.
            bindR (decoderForQuery n schema fdm operation opName vars selSet info) (\<lambda>(decoder, info).
              ok ((Some [ElmTypeAliasDecl resultType (ElmTypeRecord fields None) [],
                         ElmFunctionDecl funcName elmParamsDecl
                           (ElmTypeName (''Http.Request '' @ responseType)) body,
                         ElmFunctionDecl decodeFuncName []
                           (ElmTypeName (''Decoder '' @ resultTypeName)) (jsString decoder)],
                   expose),
                  leaveType info)))))))))))
         else ok ((None, expose), info))"

text \<open>
  \<open>walkFragmentDefinition\<close>, given the fragment's name, type condition and selection
  set: the two type aliases of a fragment.
\<close>

definition walkFragmentDefinition ::
    "nat \<Rightarrow> GraphQLSchema \<Rightarrow> FragmentDefinitionMap \<Rightarrow> string \<Rightarrow> string \<Rightarrow> Selection list
      \<Rightarrow> TypeInfo \<Rightarrow> (ElmDecl list \<times> TypeInfo) result"
where
  "walkFragmentDefinition n schema fdm name typeCondition selSet info0 =
     (let info = enterFragment schema (Some typeCondition) info0 in
      bindR (liftE (upperFirst name)) (\<lambda>resultType.
      bindR (walkSelectionSet n schema fdm selSet info) (\<lambda>((fields, spreads, union), info).
      bindR (liftE (applySpreads spreads (ElmTypeRecord fields (Some ''a'')))) (\<lambda>type.
        ok ([ElmTypeAliasDecl (resultType @ ''_'') type [''a''],
             ElmTypeAliasDecl resultType (ElmTypeApp (resultType @ ''_'') [ElmTypeRecord [] None]) []],
            leaveType info)))))"

section \<open>Enums, unions and the document (\<open>query-to-elm\<close>)\<close>

text \<open>
  \<open>visit(doc, {enter, leave})\<close> of \<open>graphql/language\<close> with a fresh \<open>TypeInfo\<close> that
  each collector enters and leaves at every node. What the two collectors read is
  recorded as events: \<open>Entering t\<close> when a node is entered, with the type in scope
  before \<open>info.enter(node)\<close>, and \<open>FieldEntered t\<close> for a field, with the type in scope
  after it. A field's name, a spread's name and a fragment's type condition are nodes
  of their own.
\<close>

datatype VisitEvent = Entering "GraphQLType option" | FieldEntered "GraphQLType option"

fun visitSelection :: "GraphQLSchema \<Rightarrow> Selection \<Rightarrow> TypeInfo \<Rightarrow> VisitEvent list \<times> TypeInfo"
  and visitSelections :: "GraphQLSchema \<Rightarrow> Selection list \<Rightarrow> TypeInfo \<Rightarrow> VisitEvent list \<times> TypeInfo"
where
  "visitSelection schema (Field alias name selectionSet) info0 =
     (let info = enterField schema name info0;
          here = [Entering (getType info0), FieldEntered (getType info), Entering (getType info)]
      in case selectionSet of
           None \<Rightarrow> (here, leaveType info)
         | Some selSet \<Rightarrow>
             (case visitSelections schema selSet (enterSelectionSet info) of
                (events, info') \<Rightarrow>
                  (here @ Entering (getType info) # events, leaveType (leaveSelectionSet info'))))"
| "visitSelection schema (FragmentSpread name) info =
     ([Entering (getType info), Entering (getType info)], info)"
| "visitSelection schema (InlineFragment typeCondition selSet) info0 =
     (let info = enterFragment schema typeCondition info0 in
      case visitSelections schema selSet (enterSelectionSet info) of
        (events, info') \<Rightarrow>
          (Entering (getType info0) # Entering (getType info) # events,
           leaveType (leaveSelectionSet info')))"
| "visitSelections schema [] info = ([], info)"
| "visitSelections schema (sel # sels) info =
     (case visitSelection schema sel info of
        (events, info') \<Rightarrow>
          (case visitSelections schema sels info' of
             (events', info'') \<Rightarrow> (events @ events', info'')))"

fun visitDefinition :: "GraphQLSchema \<Rightarrow> Definition \<Rightarrow> TypeInfo \<Rightarrow> VisitEvent list \<times> TypeInfo" where
  "visitDefinition schema (OperationDefinition operation opName vars selSet) info0 =
     (let info = enterOperation schema operation info0 in
      case visitSelections schema selSet (enterSelectionSet info) of
        (events, info') \<Rightarrow>
          (Entering (getType info0) # Entering (getType info) # events,
           leaveType (leaveSelectionSet info')))"
| "visitDefinition schema (FragmentDefinition name typeCondition selSet) info0 =
     (let info = enterFragment schema (Some typeCondition) info0 in
      case visitSelections schema selSet (enterSelectionSet info) of
        (events, info') \<Rightarrow>
          (Entering (getType info0) # Entering (getType info) # events,
           leaveType (leaveSelectionSet info')))"

fun visitDefinitions :: "GraphQLSchema \<Rightarrow> Definition list \<Rightarrow> TypeInfo \<Rightarrow> VisitEvent list \<times> TypeInfo" where
  "visitDefinitions schema [] info = ([], info)"
| "visitDefinitions schema (def # defs) info =
     (case visitDefinition schema def info of
        (events, info') \<Rightarrow>
          (case visitDefinitions schema defs info' of
             (events', info'') \<Rightarrow> (events @ events', info'')))"

definition visitDocument :: "GraphQLSchema \<Rightarrow> Definition list \<Rightarrow> VisitEvent list" where
  "visitDocument schema doc = Entering (getType newTypeInfo) # fst (visitDefinitions schema doc newTypeInfo)"

text \<open>
  \<open>collectEnumsForType(type, seen, seenTypes)\<close>: \<open>seen\<close> is the enum map and
  \<open>seenTypes\<close> the names of the object types already entered.
\<close>

fun collectEnumsForType ::
    "GraphQLType \<Rightarrow> (string \<times> GraphQLType) list \<times> string list
      \<Rightarrow> (string \<times> GraphQLType) list \<times> string list"
  and collectEnumsForFields ::
    "(string \<times> GraphQLType) list \<Rightarrow> (string \<times> GraphQLType) list \<times> string list
      \<Rightarrow> (string \<times> GraphQLType) list \<times> string list"
where
  "collectEnumsForType (GraphQLEnumType n vs) (seen, seenTypes) =
     (objSet n (GraphQLEnumType n vs) seen, seenTypes)"
| "collectEnumsForType (GraphQLList t) (seen, seenTypes) = collectEnumsForType t (seen, seenTypes)"
| "collectEnumsForType (GraphQLObjectType n fs) (seen, seenTypes) =
     (if n \<in> set seenTypes then (seen, seenTypes)
      else collectEnumsForFields fs (seen, n # seenTypes))"
| "collectEnumsForType (GraphQLInterfaceType n fs) (seen, seenTypes) =
     (if n \<in> set seenTypes then (seen, seenTypes)
      else collectEnumsForFields fs (seen, n # seenTypes))"
| "collectEnumsForType (GraphQLInputObjectType n fs) (seen, seenTypes) =
     (if n \<in> set seenTypes then (seen, seenTypes)
      else collectEnumsForFields fs (seen, n # seenTypes))"
| "collectEnumsForType (GraphQLNonNull t) (seen, seenTypes) = collectEnumsForType t (seen, seenTypes)"
| "collectEnumsForType (GraphQLScalarType n) (seen, seenTypes) = (seen, seenTypes)"
| "collectEnumsForType (GraphQLUnionType n ms) (seen, seenTypes) = (seen, seenTypes)"
| "collectEnumsForFields [] (seen, seenTypes) = (seen, seenTypes)"
| "collectEnumsForFields ((fieldName, t) # rest) (seen, seenTypes) =
     collectEnumsForFields rest (collectEnumsForType t (seen, seenTypes))"

text \<open>
  \<open>collectEnums\<close>, \<open>collectUnions\<close> and \<open>collectFragments\<close>. Each is called once per
  definition and each visits the whole document, whatever the definition.
\<close>

fun collectEnumsEvent :: "VisitEvent \<Rightarrow> (string \<times> GraphQLType) list \<Rightarrow> (string \<times> GraphQLType) list" where
  "collectEnumsEvent (FieldEntered (Some type)) enums = fst (collectEnumsForType type (enums, []))"
| "collectEnumsEvent event enums = enums"

definition collectEnums ::
    "GraphQLSchema \<Rightarrow> Definition list \<Rightarrow> (string \<times> GraphQLType) list \<Rightarrow> (string \<times> GraphQLType) list"
where
  "collectEnums schema doc enums = fold collectEnumsEvent (visitDocument schema doc) enums"

fun collectUnionsEvent :: "VisitEvent \<Rightarrow> (string \<times> GraphQLType) list \<Rightarrow> (string \<times> GraphQLType) list" where
  "collectUnionsEvent (Entering type) unions =
     (case unwrapNonNull (unwrapList (unwrapNonNull type)) of
        Some (GraphQLUnionType n ms) \<Rightarrow> objSet n (GraphQLUnionType n ms) unions
      | _ \<Rightarrow> unions)"
| "collectUnionsEvent event unions = unions"

definition collectUnions ::
    "GraphQLSchema \<Rightarrow> Definition list \<Rightarrow> (string \<times> GraphQLType) list \<Rightarrow> (string \<times> GraphQLType) list"
where
  "collectUnions schema doc unions = fold collectUnionsEvent (visitDocument schema doc) unions"

fun spreadNames :: "Selection \<Rightarrow> string list"
  and spreadNamesList :: "Selection list \<Rightarrow> string list"
where
  "spreadNames (Field alias name None) = []"
| "spreadNames (Field alias name (Some selSet)) = spreadNamesList selSet"
| "spreadNames (FragmentSpread name) = [name]"
| "spreadNames (InlineFragment typeCondition selSet) = spreadNamesList selSet"
| "spreadNamesList [] = []"
| "spreadNamesList (sel # sels) = spreadNames sel @ spreadNamesList sels"

definition collectFragments ::
    "FragmentDefinitionMap \<Rightarrow> Definition list \<Rightarrow> (string \<times> Definition option) list
      \<Rightarrow> (string \<times> Definition option) list"
where
  "collectFragments fdm doc fragments =
     fold (\<lambda>name fragments. objSet name (fdm name) fragments)
       (concat (map (\<lambda>def. spreadNamesList (selectionSetOf def)) doc)) fragments"

text \<open>\<open>buildFragmentDefinitionMap\<close>: a later fragment of the same name replaces an earlier one.\<close>

fun buildFragmentDefinitionMap :: "Definition list \<Rightarrow> FragmentDefinitionMap \<Rightarrow> FragmentDefinitionMap" where
  "buildFragmentDefinitionMap [] fdm = fdm"
| "buildFragmentDefinitionMap (FragmentDefinition name typeCondition selSet # defs) fdm =
     buildFragmentDefinitionMap defs (fdm(name \<mapsto> FragmentDefinition name typeCondition selSet))"
| "buildFragmentDefinitionMap (OperationDefinition operation opName vars selSet # defs) fdm =
     buildFragmentDefinitionMap defs fdm"

text \<open>\<open>walkEnum\<close> and \<open>decoderForEnum\<close>, on an enum's name and the names of its values.\<close>

definition walkEnum :: "string \<Rightarrow> string list \<Rightarrow> error + ElmDecl" where
  "walkEnum name vs =
     bindE (mapE (\<lambda>v. bindE (upperFirstLowerRest v) (\<lambda>ctor. Inr (name @ ''_'' @ ctor))) vs)
       (\<lambda>ctors. Inr (ElmTypeDecl name ctors))"

definition decoderForEnum :: "string \<Rightarrow> string list \<Rightarrow> error + ElmDecl" where
  "decoderForEnum name vs =
     bindE (upperFirst name) (\<lambda>decoderTypeName.
     bindE (mapE (\<lambda>v. bindE (upperFirstLowerRest v) (\<lambda>ctor.
                    Inr (''            \"'' @ v @ ''\" -> succeed '' @ decoderTypeName @ ''_'' @ ctor))) vs)
       (\<lambda>branches.
         Inr (ElmFunctionDecl (toLowerCase name @ ''Decoder'') []
                (ElmTypeName (''Decoder '' @ decoderTypeName))
                (''string |> andThen ('' @ bs @ ''s ->'' @ nl
                 @ ''        case s of'' @ nl
                 @ join nl branches @ nl
                 @ ''            _ -> fail \"Unknown '' @ name @ ''\")''))))"

text \<open>
  \<open>walkUnion\<close> of \<open>translateQuery\<close>, on a union's name and the names of its member
  types. \<open>alphabet[i]\<close> is \<open>undefined\<close> from the 27th member on: \<open>join\<close> prints
  \<open>undefined\<close> as the empty string and \<open>+\<close> prints it as \<open>undefined\<close>.
\<close>

definition alphabet :: "string list" where
  "alphabet = map (\<lambda>c. [c]) ''abcdefghijklmnopqrstuvwxyz''"

definition alphabetAt :: "nat \<Rightarrow> string option" where
  "alphabetAt i = (if i < length alphabet then Some (alphabet ! i) else None)"

definition walkUnion :: "string \<Rightarrow> string list \<Rightarrow> ElmDecl list" where
  "walkUnion name types =
     (let params = join '' '' (map (\<lambda>i. case alphabetAt i of Some a \<Rightarrow> a | None \<Rightarrow> []) [0 ..< length types])
      in [ElmTypeDecl (name @ '' '' @ params)
            (map (\<lambda>(t, i). elmSafeName (name @ ''_'' @ t) @ '' '' @ jsString (alphabetAt i))
               (zip types [0 ..< length types]))])"

text \<open>
  The three loops that end \<open>walkQueryDocument\<close>. The fragment loop reads
  \<open>fragName[0]\<close> twice and pushes two names; the enum loop puts the type declaration
  in front of \<open>decls\<close> (\<open>unshift\<close>) and the decoder behind (\<open>push\<close>); the union loop
  puts the type declaration in front.
\<close>

fun exposeFragments :: "(string \<times> Definition option) list \<Rightarrow> string list \<Rightarrow> error + string list" where
  "exposeFragments [] expose = Inr expose"
| "exposeFragments ((fragName, frag) # rest) expose =
     bindE (lowerFirst fragName) (\<lambda>decodeFragFuncName.
     bindE (upperFirst fragName) (\<lambda>fragTypeName.
       exposeFragments rest (expose @ [fragTypeName, fragTypeName @ ''_''])))"

fun emitEnums ::
    "(string \<times> GraphQLType) list \<Rightarrow> ElmDecl list \<Rightarrow> string list \<Rightarrow> error + ElmDecl list \<times> string list"
where
  "emitEnums [] decls expose = Inr (decls, expose)"
| "emitEnums ((key, GraphQLEnumType name vs) # rest) decls expose =
     bindE (walkEnum name vs) (\<lambda>typeDecl.
     bindE (decoderForEnum name vs) (\<lambda>decoderDecl.
       emitEnums rest (typeDecl # decls @ [decoderDecl]) (expose @ [name @ ''(..)''])))"
| "emitEnums ((key, t) # rest) decls expose = emitEnums rest decls expose"

fun emitUnions ::
    "(string \<times> GraphQLType) list \<Rightarrow> ElmDecl list \<Rightarrow> string list \<Rightarrow> ElmDecl list \<times> string list"
where
  "emitUnions [] decls expose = (decls, expose)"
| "emitUnions ((key, GraphQLUnionType name types) # rest) decls expose =
     emitUnions rest (walkUnion name types @ decls) (expose @ [key @ ''(..)''])"
| "emitUnions ((key, t) # rest) decls expose = emitUnions rest decls expose"

text \<open>
  The loop of \<open>walkQueryDocument\<close> over the document's definitions, carrying \<open>decls\<close>,
  \<open>expose\<close>, the three maps of what was seen, and the \<open>TypeInfo\<close>. Spreading the
  \<open>undefined\<close> a subscription returns throws a \<open>TypeError\<close>: so it is with the
  spread of ES2015; the source files do not say which language level the compiler is
  set to, and compiled for ES5 the same statement would push nothing.
\<close>

record DocState =
  decls :: "ElmDecl list"
  exposed :: "string list"
  seenFragments :: "(string \<times> Definition option) list"
  seenEnums :: "(string \<times> GraphQLType) list"
  seenUnions :: "(string \<times> GraphQLType) list"
  typeInfo :: TypeInfo

definition collectAll :: "GraphQLSchema \<Rightarrow> FragmentDefinitionMap \<Rightarrow> Definition list \<Rightarrow> DocState \<Rightarrow> DocState" where
  "collectAll schema fdm doc st =
     st\<lparr> seenFragments := collectFragments fdm doc (seenFragments st),
         seenEnums := collectEnums schema doc (seenEnums st),
         seenUnions := collectUnions schema doc (seenUnions st) \<rparr>"

fun walkDefinitions ::
    "nat \<Rightarrow> GraphQLSchema \<Rightarrow> FragmentDefinitionMap \<Rightarrow> (Definition \<Rightarrow> string) \<Rightarrow> string \<Rightarrow> bool
      \<Rightarrow> Definition list \<Rightarrow> Definition list \<Rightarrow> DocState \<Rightarrow> DocState result"
where
  "walkDefinitions n schema fdm printNode verb errorSpec doc [] st = ok st"
| "walkDefinitions n schema fdm printNode verb errorSpec doc
       (OperationDefinition operation opName vars selSet # defs) st =
     bindR (walkOperationDefinition n schema fdm printNode verb errorSpec operation opName vars selSet
              (exposed st) (typeInfo st))
       (\<lambda>((opDecls, expose), info).
         case opDecls of
           None \<Rightarrow> throw TypeError
         | Some ds \<Rightarrow>
             walkDefinitions n schema fdm printNode verb errorSpec doc defs
               (collectAll schema fdm doc
                  (st\<lparr> decls := decls st @ ds, exposed := expose, typeInfo := info \<rparr>)))"
| "walkDefinitions n schema fdm printNode verb errorSpec doc
       (FragmentDefinition name typeCondition selSet # defs) st =
     bindR (walkFragmentDefinition n schema fdm name typeCondition selSet (typeInfo st))
       (\<lambda>(ds, info).
         walkDefinitions n schema fdm printNode verb errorSpec doc defs
           (collectAll schema fdm doc (st\<lparr> decls := decls st @ ds, typeInfo := info \<rparr>)))"

text \<open>
  \<open>walkQueryDocument\<close> and \<open>translateQuery\<close>: the declarations and the names to expose.
  \<open>translateQuery\<close> starts from an empty \<open>expose\<close>, an empty fragment map and a new
  \<open>TypeInfo\<close>, all three local to the call.
\<close>

definition walkQueryDocument ::
    "nat \<Rightarrow> string \<Rightarrow> GraphQLSchema \<Rightarrow> (Definition \<Rightarrow> string) \<Rightarrow> string \<Rightarrow> bool
      \<Rightarrow> Definition list \<Rightarrow> string list \<Rightarrow> TypeInfo \<Rightarrow> (ElmDecl list \<times> string list) result"
where
  "walkQueryDocument n uri schema printNode verb errorSpec doc expose info =
     (let decls0 = [ElmFunctionDecl ''endpointUrl'' [] (ElmTypeName ''String'') (''\"'' @ uri @ ''\"'')];
          fdm = buildFragmentDefinitionMap doc Map.empty
      in bindR (walkDefinitions n schema fdm printNode verb errorSpec doc doc
                  \<lparr> decls = decls0, exposed = expose, seenFragments = [], seenEnums = [],
                    seenUnions = [], typeInfo = info \<rparr>) (\<lambda>st.
         bindR (liftE (exposeFragments (seenFragments st) (exposed st))) (\<lambda>expose.
         bindR (liftE (emitEnums (seenEnums st) (decls st) expose)) (\<lambda>(ds, expose).
           ok (emitUnions (seenUnions st) ds expose)))))"

definition translateQuery ::
    "nat \<Rightarrow> string \<Rightarrow> Definition list \<Rightarrow> GraphQLSchema \<Rightarrow> (Definition \<Rightarrow> string) \<Rightarrow> string \<Rightarrow> bool
      \<Rightarrow> (ElmDecl list \<times> string list) result"
where
  "translateQuery n uri doc schema printNode verb errorSpec =
     walkQueryDocument n uri schema printNode verb errorSpec doc [] newTypeInfo"

section \<open>Notions the properties are stated with\<close>

text \<open>
  The element type of an Elm list type, whether or not the list stands under a \<open>Maybe\<close>:
  \<open>List e\<close> and \<open>Maybe (List e)\<close> both have the elements \<open>e\<close>; another type has none.
\<close>

fun listElement :: "ElmType \<Rightarrow> ElmType option" where
  "listElement (ElmTypeApp n [t]) =
     (if n = ''List'' then Some t
      else if n = ''Maybe'' then
        (case t of
           ElmTypeApp m [e] \<Rightarrow> if m = ''List'' then Some e else None
         | _ \<Rightarrow> None)
      else None)"
| "listElement t = None"



fun isInlineFragment :: "Selection \<Rightarrow> bool" where
  "isInlineFragment (InlineFragment typeCondition selectionSet) = True"
| "isInlineFragment sel = False"

text \<open>
  The text of a union's dispatch decoder around its branches: decode \<open>__typename\<close>,
  then a \<open>case\<close> with the branches and one fallback that fails. A named branch is a
  line \<open>"Name" -> body\<close>.
\<close>

definition unionDispatch :: "string list \<Rightarrow> string" where
  "unionDispatch branches =
     ''((field \"__typename\" string) |> andThen '' @ nl @ ''        ('' @ bs
       @ ''typename -> case typename of'' @ concat branches
       @ nl @ ''            _ -> fail \"Unexpected union type\")'' @ '')''"

definition namedBranch :: "string \<times> string \<Rightarrow> string" where
  "namedBranch b = nl @ ''            \"'' @ fst b @ ''\" -> '' @ snd b"


text \<open>
  What the spec calls the fields of a selection set "after fragment-spread expansion":
  the fields in order, a spread replaced by the fields of its fragment (\<open>None\<close> when
  the fuel runs out, a fragment is missing, or an inline fragment stands in the way).
  A field goes by its alias, or by its name when it has none. \<open>firstFields\<close> keeps, of
  the fields that go by one name, the first; \<open>firstOccurrences\<close> does so for names.
\<close>

fun fieldKey :: "Selection \<Rightarrow> string" where
  "fieldKey (Field alias name selectionSet) = (case alias of None \<Rightarrow> name | Some a \<Rightarrow> a)"
| "fieldKey sel = []"

fun expandedFields :: "nat \<Rightarrow> FragmentDefinitionMap \<Rightarrow> Selection list \<Rightarrow> Selection list option" where
  "expandedFields 0 fdm sels = None"
| "expandedFields (Suc n) fdm [] = Some []"
| "expandedFields (Suc n) fdm (Field alias name selectionSet # sels) =
     map_option (\<lambda>fs. Field alias name selectionSet # fs) (expandedFields (Suc n) fdm sels)"
| "expandedFields (Suc n) fdm (FragmentSpread spreadName # sels) =
     (case fdm spreadName of
        None \<Rightarrow> None
      | Some def \<Rightarrow>
          (case expandedFields n fdm (selectionSetOf def) of
             None \<Rightarrow> None
           | Some inner \<Rightarrow> map_option (\<lambda>fs. inner @ fs) (expandedFields (Suc n) fdm sels)))"
| "expandedFields (Suc n) fdm (InlineFragment typeCondition selectionSet # sels) = None"

fun firstFields :: "Selection list \<Rightarrow> Selection list" where
  "firstFields [] = []"
| "firstFields (f # fs) = f # filter (\<lambda>g. fieldKey g \<noteq> fieldKey f) (firstFields fs)"

text \<open>The fields that are new to the names already seen, each once.\<close>

definition newFields :: "string list \<Rightarrow> Selection list \<Rightarrow> Selection list" where
  "newFields seen fs = firstFields (filter (\<lambda>f. fieldKey f \<notin> set seen) fs)"

fun firstOccurrences :: "string list \<Rightarrow> string list" where
  "firstOccurrences [] = []"
| "firstOccurrences (x # xs) = x # filter (\<lambda>y. y \<noteq> x) (firstOccurrences xs)"

text \<open>The fields and the spreads a selection set names directly.\<close>

fun directFieldNames :: "Selection list \<Rightarrow> string list" where
  "directFieldNames [] = []"
| "directFieldNames (Field alias name selectionSet # sels) =
     (case alias of None \<Rightarrow> name | Some a \<Rightarrow> a) # directFieldNames sels"
| "directFieldNames (sel # sels) = directFieldNames sels"

fun directSpreads :: "Selection list \<Rightarrow> string list" where
  "directSpreads [] = []"
| "directSpreads (FragmentSpread name # sels) = name # directSpreads sels"
| "directSpreads (sel # sels) = directSpreads sels"

text \<open>
  The name a declaration declares; the declarations of a translation's result, by name;
  and the declarations one entry of the enum map and of the union map stands for.
\<close>

fun declName :: "ElmDecl \<Rightarrow> string" where
  "declName (ElmTypeDecl name constructors) = name"
| "declName (ElmFunctionDecl name parameters returnType body) = name"
| "declName (ElmTypeAliasDecl name type typeParams) = name"

fun declNames :: "(ElmDecl list \<times> string list) result \<Rightarrow> string list option" where
  "declNames (Some (Inr (ds, expose))) = Some (map declName ds)"
| "declNames r = None"

fun enumTypeDecl :: "string \<times> GraphQLType \<Rightarrow> error + ElmDecl" where
  "enumTypeDecl (key, GraphQLEnumType name vs) = walkEnum name vs"
| "enumTypeDecl (key, t) = Inl TypeError"

fun enumDecoderDecl :: "string \<times> GraphQLType \<Rightarrow> error + ElmDecl" where
  "enumDecoderDecl (key, GraphQLEnumType name vs) = decoderForEnum name vs"
| "enumDecoderDecl (key, t) = Inl TypeError"

fun unionTypeDecls :: "string \<times> GraphQLType \<Rightarrow> ElmDecl list" where
  "unionTypeDecls (key, GraphQLUnionType name types) = walkUnion name types"
| "unionTypeDecls (key, t) = []"

text \<open>
  How many declarations a definition contributes by itself: a type alias, a request
  function and a decoder for an operation; two type aliases for a fragment.
\<close>

fun declCount :: "Definition \<Rightarrow> nat" where
  "declCount (OperationDefinition operation opName vars selSet) = 3"
| "declCount (FragmentDefinition name typeCondition selSet) = 2"

text \<open>
  Two outcomes agree up to fuel: the first ran out of fuel, or both are the same.
\<close>

definition fuelLe :: "'a option \<Rightarrow> 'a option \<Rightarrow> bool" where
  "fuelLe r r' = (case r of None \<Rightarrow> True | Some x \<Rightarrow> r' = Some x)"

section \<open>An example schema and documents\<close>

definition exampleCharacter :: GraphQLType where
  "exampleCharacter = GraphQLObjectType ''Character''
     [(''id'', GraphQLNonNull (GraphQLScalarType ''ID'')), (''name'', GraphQLScalarType ''String'')]"

definition exampleStarship :: GraphQLType where
  "exampleStarship = GraphQLObjectType ''Starship'' [(''name'', GraphQLScalarType ''String'')]"

definition exampleSearchResult :: GraphQLType where
  "exampleSearchResult = GraphQLUnionType ''SearchResult'' [''Character'', ''Starship'']"

definition exampleSchema :: GraphQLSchema where
  "exampleSchema =
     \<lparr> queryType = Some (GraphQLObjectType ''Query''
         [(''hero'', exampleCharacter),
          (''search'', GraphQLList exampleSearchResult),
          (''episode'', GraphQLEnumType ''Episode'' [''JEDI'']),
          (''again'', GraphQLEnumType ''Episode'' [''JEDI'']),
          (''color'', GraphQLEnumType ''Color'' [''RED''])]),
       mutationType = None, subscriptionType = None,
       schemaTypeMap = [(''Character'', exampleCharacter), (''Starship'', exampleStarship)],
       rootMetaFields = [] \<rparr>"

definition exampleFragments :: FragmentDefinitionMap where
  "exampleFragments =
     [''ship'' \<mapsto> FragmentDefinition ''ship'' ''Starship'' [Field None ''name'' None],
      ''who'' \<mapsto> FragmentDefinition ''who'' ''Character'' [Field None ''name'' None, Field None ''id'' None]]"

text \<open>The \<open>TypeInfo\<close> inside the field \<open>search\<close> and inside the field \<open>hero\<close>.\<close>

definition searchInfo :: TypeInfo where
  "searchInfo = \<lparr> typeStack = [Some (GraphQLList exampleSearchResult)], parentTypeStack = [] \<rparr>"

definition heroInfo :: TypeInfo where
  "heroInfo = \<lparr> typeStack = [Some exampleCharacter], parentTypeStack = [] \<rparr>"

text \<open>
  The example schema with the built-in scalar \<open>Int\<close> in its type map, and the printer of
  the operation \<open>query Q($n: Int = 1) { episode(first: $n) }\<close>, which \<open>print\<close> lays out
  on three lines (the arguments of a field are not among what the translator reads
  of it).
\<close>

definition variableSchema :: GraphQLSchema where
  "variableSchema =
     exampleSchema \<lparr> schemaTypeMap := (''Int'', GraphQLScalarType ''Int'') # schemaTypeMap exampleSchema \<rparr>"

definition variablePrint :: "Definition \<Rightarrow> string" where
  "variablePrint def = ''query Q($n: Int = 1) {'' @ nl @ ''  episode(first: $n)'' @ nl @ ''}''"

text \<open>A printer, and the document \<open>{ episode color again }\<close>.\<close>

definition examplePrint :: "Definition \<Rightarrow> string" where
  "examplePrint def = ''{ episode color again }''"

definition enumDocument :: "Definition list" where
  "enumDocument =
     [OperationDefinition OpQuery None []
        [Field None ''episode'' None, Field None ''color'' None, Field None ''again'' None]]"

section \<open>Properties\<close>

subsection \<open>Running the model\<close>

text \<open>
  How the two layers of outcome compose, and the rules that evaluate the model on a
  concrete input: the continuation of a bind is opened only once its first argument has
  been evaluated.
\<close>

lemma bindR_simps:
  "bindR None f = None"
  "bindR (Some (Inl e)) f = Some (Inl e)"
  "bindR (Some (Inr x)) f = f x"
  by (simp_all add: bindR_def)

lemma bindR_weak_cong: "m = m' \<Longrightarrow> bindR m f = bindR m' f"
  by simp

lemma bindE_simps:
  "bindE (Inl e) g = Inl e"
  "bindE (Inr x) g = g x"
  by (simp_all add: bindE_def)

lemma bindE_weak_cong: "m = m' \<Longrightarrow> bindE m f = bindE m' f"
  by simp

lemma bindR_Inr_iff:
  "(bindR m f = Some (Inr r)) = (\<exists>x. m = Some (Inr x) \<and> f x = Some (Inr r))"
  by (auto simp: bindR_def split: option.splits sum.splits)

lemma bindE_Inr_iff:
  "(bindE m f = Inr r) = (\<exists>x. m = Inr x \<and> f x = Inr r)"
  by (auto simp: bindE_def split: sum.splits)

lemma result_simps:
  "(ok x = Some (Inr r)) = (x = r)"
  "throw e \<noteq> Some (Inr r)"
  "(liftE m = Some (Inr r)) = (m = Inr r)"
  "ok x \<noteq> None" "throw e \<noteq> None" "liftE m \<noteq> None"
  "ok x \<noteq> Some (Inl e)"
  by (simp_all add: ok_def throw_def liftE_def)

lemmas run_defs = ok_def throw_def liftE_def Let_def
  getType_def getParentType_def enterSelectionSet_def leaveSelectionSet_def enterField_def
  enterOperation_def enterFragment_def leaveType_def newTypeInfo_def getFieldDef_def
  unwrapNonNull_def unwrapList_def isNonNullType_def isListType_def isUnionType_def unionName_def
  elmSafeName_def scalarToElm_def wrapMaybe_def scalarToDecoder_def scalarToEncoder_def
  leafTypeToDecoder_def jsString_def toUpperCase_char_def toLowerCase_char_def toLowerCase_def
  isSpace_def shapeOf_def oneLine_def unionBranch_def

lemmas run_congs = bindR_weak_cong bindE_weak_cong let_weak_cong

lemmas run_doc_defs = translateQuery_def walkQueryDocument_def walkOperationDefinition_def
  walkFragmentDefinition_def decoderForQuery_def collectAll_def collectEnums_def collectUnions_def
  collectFragments_def visitDocument_def walkEnum_def decoderForEnum_def walkUnion_def
  alphabet_def alphabetAt_def parameterEncoder_def enumTuple_def

lemmas example_defs = exampleCharacter_def exampleStarship_def exampleSearchResult_def
  exampleSchema_def exampleFragments_def searchInfo_def heroInfo_def examplePrint_def
  enumDocument_def variableSchema_def variablePrint_def

lemma getType_enterSelectionSet [simp]: "getType (enterSelectionSet info) = getType info"
  by (simp add: getType_def enterSelectionSet_def Let_def)

subsection \<open>Name sanitization\<close>

text \<open>
  Claim C9. \<open>elmSafeName\<close> is idempotent: applying it twice gives what applying it once
  gives, for every string, and each of its six remapped outputs is mapped to itself
  (none is a key of the reserved-word table).
\<close>

theorem elmSafeName_idempotent:
  "elmSafeName (elmSafeName s) = elmSafeName s
   \<and> elmSafeName ''typename_'' = ''typename_'' \<and> elmSafeName ''type_'' = ''type_''
   \<and> elmSafeName ''Task_'' = ''Task_'' \<and> elmSafeName ''List_'' = ''List_''
   \<and> elmSafeName ''Http_'' = ''Http_'' \<and> elmSafeName ''GraphQL_'' = ''GraphQL_''"
  by (simp add: elmSafeName_def)

subsection \<open>Lists and non-null in \<open>typeToElm\<close>\<close>

text \<open>
  Claim C1, as stated, at its own examples: \<open>NonNull(List(Int))\<close> would map to a list
  of \<open>Maybe Int\<close>, and the elements of a bare nullable \<open>List(Int)\<close> would be
  \<open>Maybe Int\<close> as well. \<open>typeToElm\<close> returns \<open>List Int\<close> for \<open>NonNull(List(Int))\<close>, and
  the elements of what it returns for \<open>List(Int)\<close> are \<open>Int\<close>: the list branch maps the
  element type with \<open>isNonNull = true\<close>.
\<close>

theorem typeToElm_list_nesting_counterexample:
  "typeToElm (GraphQLNonNull (GraphQLList (GraphQLScalarType ''Int''))) False
     = Inr (ElmTypeApp ''List'' [ElmTypeName ''Int''])
   \<and> typeToElm (GraphQLNonNull (GraphQLList (GraphQLScalarType ''Int''))) False
     \<noteq> Inr (ElmTypeApp ''List'' [ElmTypeApp ''Maybe'' [ElmTypeName ''Int'']])
   \<and> map_sum id listElement (typeToElm (GraphQLList (GraphQLScalarType ''Int'')) False)
     = Inr (Some (ElmTypeName ''Int''))
   \<and> listElement (ElmTypeApp ''Maybe'' [ElmTypeApp ''List'' [ElmTypeApp ''Maybe'' [ElmTypeName ''Int'']]])
     = Some (ElmTypeApp ''Maybe'' [ElmTypeName ''Int''])"
  by (simp add: bindE_def wrapMaybe_def scalarToElm_def)

text \<open>
  Claim C1, amended. \<open>typeToElm\<close> maps the elements of a list in a non-null context,
  whatever the nesting: the elements of \<open>List(NonNull(Int))\<close>, of \<open>NonNull(List(Int))\<close>
  and of a bare nullable \<open>List(Int)\<close> are all \<open>Int\<close>, and in general the elements of
  the type a list maps to are what the element type maps to under a non-null, for
  every element type the model has, which is a finite tree (an element type that
  cannot be mapped makes the list fail the same way). A non-null
  list maps to the list itself, with no \<open>Maybe\<close> around it: \<open>NonNull(List(Int))\<close> and
  \<open>NonNull(List(NonNull(Int)))\<close> map to \<open>List Int\<close>. Outside a list the nesting is
  mirrored: \<open>NonNull(Int)\<close> maps to \<open>Int\<close> and a nullable \<open>Int\<close> to \<open>Maybe Int\<close>. What
  stands around a list that is nullable is not part of the statement.
\<close>

theorem typeToElm_list_nesting:
  "map_sum id listElement (typeToElm (GraphQLList (GraphQLNonNull (GraphQLScalarType ''Int''))) False)
     = Inr (Some (ElmTypeName ''Int''))
   \<and> typeToElm (GraphQLNonNull (GraphQLList (GraphQLNonNull (GraphQLScalarType ''Int'')))) False
     = Inr (ElmTypeApp ''List'' [ElmTypeName ''Int''])
   \<and> typeToElm (GraphQLNonNull (GraphQLList (GraphQLScalarType ''Int''))) False
     = Inr (ElmTypeApp ''List'' [ElmTypeName ''Int''])
   \<and> map_sum id listElement (typeToElm (GraphQLList (GraphQLScalarType ''Int'')) False)
     = Inr (Some (ElmTypeName ''Int''))
   \<and> map_sum id listElement (typeToElm (GraphQLList t) b) = map_sum id Some (typeToElm t True)
   \<and> map_sum id listElement (typeToElm (GraphQLList (GraphQLNonNull t)) b)
     = map_sum id Some (typeToElm t True)
   \<and> typeToElm (GraphQLNonNull (GraphQLList t)) b
     = bindE (typeToElm t True) (\<lambda>elem. Inr (ElmTypeApp ''List'' [elem]))
   \<and> typeToElm (GraphQLNonNull (GraphQLScalarType ''Int'')) b = Inr (ElmTypeName ''Int'')
   \<and> typeToElm (GraphQLScalarType ''Int'') False = Inr (ElmTypeApp ''Maybe'' [ElmTypeName ''Int''])"
  by (cases "typeToElm t True") (simp_all add: bindE_def wrapMaybe_def scalarToElm_def)

text \<open>
  The list that is nullable. For a leaf field \<open>tags : [String]\<close> of an object type,
  \<open>walkField\<close> declares the type \<open>List String\<close>, from \<open>typeToElm\<close>, while the decoder's
  \<open>walkField\<close> decodes the same field with \<open>maybe\<close>: the declared type and the decoder
  do not fit each other.
\<close>

lemma nullable_leaf_list_type_and_decoder:
  "walkField (Suc 0) schema fdm None ''tags'' None
      \<lparr> typeStack = [], parentTypeStack =
           [Some (GraphQLObjectType ''Post'' [(''tags'', GraphQLList (GraphQLScalarType ''String''))])] \<rparr>
     = Some (Inr ((''tags'', ElmTypeApp ''List'' [ElmTypeName ''String'']),
          \<lparr> typeStack = [], parentTypeStack =
             [Some (GraphQLObjectType ''Post'' [(''tags'', GraphQLList (GraphQLScalarType ''String''))])] \<rparr>))
   \<and> walkField_decoder (Suc 0) schema fdm None ''tags'' None
      \<lparr> typeStack = [], parentTypeStack =
           [Some (GraphQLObjectType ''Post'' [(''tags'', GraphQLList (GraphQLScalarType ''String''))])] \<rparr>
     = Some (Inr (''(maybe (field \"tags\" (list string)))'',
          \<lparr> typeStack = [], parentTypeStack =
             [Some (GraphQLObjectType ''Post'' [(''tags'', GraphQLList (GraphQLScalarType ''String''))])] \<rparr>))"
  by (simp add: run_defs bindR_simps bindE_simps cong: run_congs)

subsection \<open>Scalars that are not \<open>Int\<close>, \<open>Float\<close> or \<open>Boolean\<close>\<close>

text \<open>
  Claim C6. For every scalar whose name is not \<open>Int\<close>, \<open>Float\<close> or \<open>Boolean\<close>
  (so \<open>ID\<close>, \<open>DateTime\<close>, \<open>String\<close> and every name the switch does not list),
  \<open>typeToElm\<close> returns the named type \<open>String\<close> (under the \<open>Maybe\<close> of a nullable
  position, as for every scalar), \<open>leafTypeToDecoder\<close> returns the \<open>string\<close> decoder and
  \<open>encoderForInputType\<close> the \<open>Json.Encode.string\<close> encoder; each returns a value, none
  throws.
\<close>

theorem unrecognized_scalar_is_string:
  assumes "n \<noteq> ''Int''" and "n \<noteq> ''Float''" and "n \<noteq> ''Boolean''"
  shows "typeToElm (GraphQLNonNull (GraphQLScalarType n)) b = Inr (ElmTypeName ''String'')
     \<and> typeToElm (GraphQLScalarType n) True = Inr (ElmTypeName ''String'')
     \<and> typeToElm (GraphQLScalarType n) False = Inr (ElmTypeApp ''Maybe'' [ElmTypeName ''String''])
     \<and> leafTypeToDecoder (Some (GraphQLScalarType n)) = Inr ''string''
     \<and> leafTypeToDecoder (Some (GraphQLNonNull (GraphQLScalarType n))) = Inr ''string''
     \<and> encoderForInputType (GraphQLNonNull (GraphQLScalarType n)) b (Some path)
         = Inr (''Json.Encode.string '' @ path)
     \<and> encoderForInputType (GraphQLScalarType n) b (Some path)
         = Inr (''(maybeEncode ('' @ bs @ ''o -> Json.Encode.string o) '' @ path @ '')'')"
  using assms
  by (simp add: bindE_def wrapMaybe_def scalarToElm_def scalarToDecoder_def scalarToEncoder_def
      leafTypeToDecoder_def jsString_def)

theorem unrecognized_scalar_is_string_witness:
  "typeToElm (GraphQLNonNull (GraphQLScalarType ''URL'')) False = Inr (ElmTypeName ''String'')
     \<and> typeToElm (GraphQLScalarType ''URL'') True = Inr (ElmTypeName ''String'')
     \<and> typeToElm (GraphQLScalarType ''URL'') False = Inr (ElmTypeApp ''Maybe'' [ElmTypeName ''String''])
     \<and> leafTypeToDecoder (Some (GraphQLScalarType ''URL'')) = Inr ''string''
     \<and> leafTypeToDecoder (Some (GraphQLNonNull (GraphQLScalarType ''URL''))) = Inr ''string''
     \<and> encoderForInputType (GraphQLNonNull (GraphQLScalarType ''URL'')) False (Some ''params.u'')
         = Inr ''Json.Encode.string params.u''
     \<and> encoderForInputType (GraphQLScalarType ''URL'') False (Some ''params.u'')
         = Inr (''(maybeEncode ('' @ bs @ ''o -> Json.Encode.string o) params.u)'')"
  using unrecognized_scalar_is_string [of "''URL''" False "''params.u''"] by simp

subsection \<open>What an operation and a fragment declare\<close>

lemma walkOperationDefinition_shape:
  assumes "walkOperationDefinition n schema fdm printNode verb errorSpec operation opName vars selSet
             expose info = Some (Inr ((Some ds, expose'), info'))"
  shows "\<exists>resultType funcName decodeFunc resultTypeName fields params body expr.
           upperFirst (case opName of Some v \<Rightarrow> v | None \<Rightarrow> ''AnonymousQuery'') = Inr resultType
         \<and> lowerFirst (case opName of Some v \<Rightarrow> v | None \<Rightarrow> ''AnonymousQuery'') = Inr funcName
         \<and> lowerFirst resultType = Inr decodeFunc
         \<and> upperFirst resultType = Inr resultTypeName
         \<and> ds = [ElmTypeAliasDecl resultType (ElmTypeRecord fields None) [],
                 ElmFunctionDecl funcName params
                   (ElmTypeName (''Http.Request '' @
                      (if errorSpec then ''(Response '' @ resultType @ '')'' else resultType))) body,
                 ElmFunctionDecl (decodeFunc @ ''Decoder'') []
                   (ElmTypeName (''Decoder '' @ resultTypeName)) (''map '' @ resultType @ '' '' @ expr)]
         \<and> expose' = expose @ [funcName, resultType]"
proof -
  define name where "name = (case opName of Some v \<Rightarrow> v | None \<Rightarrow> ''AnonymousQuery'')"
  from assms have op: "operation = OpQuery \<or> operation = OpMutation"
    and ty: "getType (enterOperation schema operation info) \<noteq> None"
    unfolding walkOperationDefinition_def Let_def
    by (auto simp: result_simps split: if_splits option.splits)
  from assms op ty show ?thesis
    unfolding walkOperationDefinition_def decoderForQuery_def Let_def name_def [symmetric]
    by (auto simp: bindR_Inr_iff result_simps jsString_def)
qed

lemma walkFragmentDefinition_length:
  "walkFragmentDefinition n schema fdm name typeCondition selSet info = Some (Inr (ds, info'))
     \<Longrightarrow> length ds = 2"
  by (auto simp: walkFragmentDefinition_def Let_def bindR_Inr_iff result_simps)

text \<open>
  The document \<open>{ episode color again }\<close> of the example schema translates; these are
  its declarations, by name.
\<close>

lemma enumDocument_translation:
  "\<exists>ds expose.
      translateQuery (Suc (Suc (Suc (Suc (Suc 0))))) ''u'' enumDocument exampleSchema examplePrint ''GET'' False
        = Some (Inr (ds, expose))
    \<and> map declName ds = [''Color'', ''Episode'', ''endpointUrl'', ''AnonymousQuery'', ''anonymousQuery'',
          ''anonymousQueryDecoder'', ''episodeDecoder'', ''colorDecoder'']"
  by (simp add: example_defs run_defs run_doc_defs bindR_simps bindE_simps cong: run_congs)

subsection \<open>An operation without a name\<close>

text \<open>
  Claim C10. For an operation definition that has no name, the declarations
  \<open>walkOperationDefinition\<close> returns are named from \<open>AnonymousQuery\<close>: the type alias
  \<open>AnonymousQuery\<close>, the request function \<open>anonymousQuery\<close> and the decoder
  \<open>anonymousQueryDecoder\<close> (of type \<open>Decoder AnonymousQuery\<close>, mapping the constructor
  \<open>AnonymousQuery\<close>), and \<open>anonymousQuery\<close> and \<open>AnonymousQuery\<close> are added to the
  exposed names, in that order.
\<close>

theorem anonymous_operation_names:
  assumes "walkOperationDefinition n schema fdm printNode verb errorSpec operation None vars selSet
             expose info = Some (Inr ((Some ds, expose'), info'))"
  shows "\<exists>fields params body expr.
           ds = [ElmTypeAliasDecl ''AnonymousQuery'' (ElmTypeRecord fields None) [],
                 ElmFunctionDecl ''anonymousQuery'' params
                   (ElmTypeName (''Http.Request '' @
                      (if errorSpec then ''(Response AnonymousQuery)'' else ''AnonymousQuery''))) body,
                 ElmFunctionDecl ''anonymousQueryDecoder'' []
                   (ElmTypeName ''Decoder AnonymousQuery'') (''map AnonymousQuery '' @ expr)]
         \<and> expose' = expose @ [''anonymousQuery'', ''AnonymousQuery'']"
  using walkOperationDefinition_shape [OF assms]
  by (auto simp: toUpperCase_char_def toLowerCase_char_def)

text \<open>The operation \<open>{ episode }\<close> of the example schema is such a translation.\<close>

theorem anonymous_operation_names_witness:
  "\<exists>ds expose' info'.
      walkOperationDefinition (Suc (Suc (Suc 0))) exampleSchema Map.empty examplePrint ''GET'' False
        OpQuery None [] [Field None ''episode'' None] [] newTypeInfo = Some (Inr ((Some ds, expose'), info'))
    \<and> (\<exists>fields params body expr.
           ds = [ElmTypeAliasDecl ''AnonymousQuery'' (ElmTypeRecord fields None) [],
                 ElmFunctionDecl ''anonymousQuery'' params
                   (ElmTypeName ''Http.Request AnonymousQuery'') body,
                 ElmFunctionDecl ''anonymousQueryDecoder'' []
                   (ElmTypeName ''Decoder AnonymousQuery'') (''map AnonymousQuery '' @ expr)])
    \<and> expose' = [''anonymousQuery'', ''AnonymousQuery'']"
proof -
  have "\<exists>ds expose' info'.
      walkOperationDefinition (Suc (Suc (Suc 0))) exampleSchema Map.empty examplePrint ''GET'' False
        OpQuery None [] [Field None ''episode'' None] [] newTypeInfo = Some (Inr ((Some ds, expose'), info'))"
    by (simp add: example_defs run_defs run_doc_defs bindR_simps bindE_simps cong: run_congs)
  then obtain ds expose' info' where run:
      "walkOperationDefinition (Suc (Suc (Suc 0))) exampleSchema Map.empty examplePrint ''GET'' False
        OpQuery None [] [Field None ''episode'' None] [] newTypeInfo = Some (Inr ((Some ds, expose'), info'))"
    by blast
  from anonymous_operation_names [OF run] show ?thesis
    using run by simp
qed

subsection \<open>A variable with a default value\<close>

text \<open>
  The entry \<open>parameterEncoder\<close> builds for a variable with a default value, whatever
  its name, when its type is a scalar, nullable or not: \<open>encoderForInputType\<close> is
  called with no path, and the text of the \<open>Just\<close> branch holds JavaScript's
  \<open>undefined\<close> where the value to encode should stand. For the same variable without
  a default value the path is passed, and the entry encodes \<open>params.name\<close>.
\<close>

lemma default_valued_scalar_encoder:
  "parameterEncoder (name, type, GraphQLScalarType s, True)
     = Inr (''(\"'' @ name @ ''\", case params.'' @ name @ '' of''
            @ nl @ ''                            Just val -> (maybeEncode ('' @ bs @ ''o -> ''
            @ scalarToEncoder s @ ''o) undefined) val''
            @ nl @ ''                            Nothing -> Json.Encode.null)'')
   \<and> parameterEncoder (name, type, GraphQLNonNull (GraphQLScalarType s), True)
     = Inr (''(\"'' @ name @ ''\", case params.'' @ name @ '' of''
            @ nl @ ''                            Just val -> '' @ scalarToEncoder s @ ''undefined val''
            @ nl @ ''                            Nothing -> Json.Encode.null)'')
   \<and> parameterEncoder (name, type, GraphQLScalarType s, False)
     = Inr (''(\"'' @ name @ ''\", (maybeEncode ('' @ bs @ ''o -> '' @ scalarToEncoder s
            @ ''o) params.'' @ name @ ''))'')
   \<and> parameterEncoder (name, type, GraphQLNonNull (GraphQLScalarType s), False)
     = Inr (''(\"'' @ name @ ''\", '' @ scalarToEncoder s @ ''params.'' @ name @ '')'')"
  by (simp add: parameterEncoder_def bindE_simps jsString_def)

text \<open>
  Claim C5, on the operation \<open>query Q($n: Int = 1) { episode(first: $n) }\<close>. The claim: for a
  variable declared with a default value the generated encoder emits \<open>null\<close> when the
  value is unset, and keeps the key. \<open>walkOperationDefinition\<close> declares the request
  function \<open>q\<close> below. The key \<open>n\<close> is there and the \<open>Nothing\<close> branch is
  \<open>Json.Encode.null\<close>, but the \<open>Just\<close> branch reads
  \<open>(maybeEncode (\<bslash>o -> Json.Encode.int o) undefined) val\<close>: \<open>undefined\<close> is no name of
  Elm, so the declaration is not an Elm function and nothing can be emitted by it.
  The call for a variable without a default value passes the path
  \<open>'params.' + p.name\<close>; this one passes none.
\<close>

theorem default_valued_variable_encoder:
  "walkOperationDefinition (Suc (Suc (Suc 0))) variableSchema Map.empty variablePrint ''GET'' False
      OpQuery (Some ''Q'') [\<lparr> varName = ''n'', varType = NamedType ''Int'', hasDefaultValue = True \<rparr>]
      [Field None ''episode'' None] [] newTypeInfo
     = Some (Inr ((Some
         [ElmTypeAliasDecl ''Q''
            (ElmTypeRecord [(''episode'', ElmTypeApp ''Maybe'' [ElmTypeName ''Episode''])] None) [],
          ElmFunctionDecl ''q''
            [(''params'', ElmTypeRecord [(''n'', ElmTypeApp ''Maybe'' [ElmTypeName ''Int''])] None)]
            (ElmTypeName ''Http.Request Q'')
            (''let graphQLQuery = \"\"\"query Q($n: Int = 1) { episode(first: $n) }\"\"\" in'' @ nl
             @ ''    let graphQLParams ='' @ nl
             @ ''            Json.Encode.object'' @ nl
             @ ''                [ (\"n\", case params.n of'' @ nl
             @ ''                            Just val -> (maybeEncode ('' @ bs
             @ ''o -> Json.Encode.int o) undefined) val'' @ nl
             @ ''                            Nothing -> Json.Encode.null)'' @ nl
             @ ''                ]'' @ nl
             @ ''    in'' @ nl
             @ ''    query \"GET\" endpointUrl graphQLQuery \"Q\" graphQLParams qDecoder''),
          ElmFunctionDecl ''qDecoder'' [] (ElmTypeName ''Decoder Q'')
            ''map Q (maybe (field \"episode\" (episodeDecoder)))''],
         [''q'', ''Q'']), newTypeInfo))"
  by (simp add: example_defs run_defs run_doc_defs bindR_simps bindE_simps cong: run_congs)
subsection \<open>Selection sets on a union\<close>













text \<open>
  A whole document with that selection set,
  \<open>{ search { __typename ... on Character { name } ...ship } }\<close> and the fragment
  \<open>ship\<close>, translates: these are the names it exposes, its declarations by name, and
  the decoder it declares, whatever the printer.
\<close>

lemma union_document_translation:
  "\<exists>ds. translateQuery (Suc (Suc (Suc (Suc (Suc (Suc 0)))))) ''u''
          [OperationDefinition OpQuery None []
             [Field None ''search'' (Some [Field None ''__typename'' None,
                InlineFragment (Some ''Character'') [Field None ''name'' None],
                FragmentSpread ''ship''])],
           FragmentDefinition ''ship'' ''Starship'' [Field None ''name'' None]]
          exampleSchema printNode ''GET'' False
        = Some (Inr (ds, [''anonymousQuery'', ''AnonymousQuery'', ''Ship'', ''Ship_'', ''SearchResult(..)'']))
     \<and> map declName ds = [''SearchResult a b'', ''endpointUrl'', ''AnonymousQuery'', ''anonymousQuery'',
          ''anonymousQueryDecoder'', ''Ship_'', ''Ship'']
     \<and> ds ! 4 = ElmFunctionDecl ''anonymousQueryDecoder'' [] (ElmTypeName ''Decoder AnonymousQuery'')
          (''map AnonymousQuery (field \"search\" (maybe (list '' @ unionDispatch
             [namedBranch (''Character'', ''(map ('' @ bs
                @ ''name -> SearchResult_Character { name = name }) (maybe (field \"name\" (string)))''
                @ nl @ '')''),
              namedBranch (''Starship'', ''(map ('' @ bs
                @ ''name -> SearchResult_Starship { name = name }) (maybe (field \"name\" (string)))''
                @ nl @ '')'')]
             @ '')))'')"
  by (simp add: example_defs run_defs run_doc_defs bindR_simps bindE_simps unionDispatch_def
        namedBranch_def cong: run_congs)
subsection \<open>Inline fragments outside a union\<close>

text \<open>
  Where the type in scope is not a union, a selection set with an inline fragment is
  never walked to the end: \<open>walkSelectionSet\<close> returns no fields, whatever the fuel.
  When the inline fragment comes first and names a type, the error is the
  "not implemented" one.
\<close>

lemma walkSelections_inline_fragment:
  "list_ex isInlineFragment sels \<Longrightarrow> walkSelections field_walker sels info \<noteq> Some (Inr r)"
proof (induction sels arbitrary: info r)
  case Nil
  then show ?case by simp
next
  case (Cons sel sels)
  show ?case
  proof (cases sel)
    case (Field al name selectionSet)
    with Cons show ?thesis
      by (auto simp: bindR_Inr_iff result_simps)
  next
    case (FragmentSpread name)
    with Cons show ?thesis
      by (auto simp: bindR_Inr_iff result_simps)
  next
    case (InlineFragment typeCondition selectionSet)
    then show ?thesis
      by (simp add: result_simps split: option.splits)
  qed
qed

lemma inline_fragment_outside_union_fails:
  assumes "\<not> isUnionType (unwrapNonNull (unwrapList (unwrapNonNull (getType info))))"
    and "list_ex isInlineFragment selSet"
  shows "walkSelectionSet n schema fdm selSet info \<noteq> Some (Inr r)"
proof (cases n)
  case 0
  then show ?thesis by simp
next
  case (Suc k)
  with assms walkSelections_inline_fragment [OF assms(2)] show ?thesis
    by (auto simp: Let_def bindR_Inr_iff result_simps getType_def enterSelectionSet_def)
qed

lemma inline_fragment_first_not_implemented:
  assumes "\<not> isUnionType (unwrapNonNull (unwrapList (unwrapNonNull (getType info))))"
  shows "walkSelectionSet (Suc (Suc k)) schema fdm (InlineFragment (Some onType) selectionSet # sels) info
           = Some (Inl (Error (''not implemented: InlineFragment on '' @ onType)))"
  using assms
  by (simp add: Let_def bindR_simps throw_def getType_def enterSelectionSet_def)

text \<open>
  Claim C7, where the code departs from it. The document
  \<open>{ hero { ... { name } } }\<close> has an inline fragment with no type condition inside an
  object type. Building the "not implemented" message reads
  \<open>frag.typeCondition.name.value\<close>, so the translation ends with a \<open>TypeError\<close> rather
  than with the "not implemented" error, which the same document gets once the
  fragment reads \<open>... on Character\<close>. No declarations are returned either way.
\<close>

theorem inline_fragment_without_type_condition:
  "translateQuery (Suc (Suc (Suc (Suc (Suc 0))))) uri
     [OperationDefinition OpQuery None []
        [Field None ''hero'' (Some [InlineFragment None [Field None ''name'' None]])]]
     exampleSchema printNode verb errorSpec = Some (Inl TypeError)
   \<and> translateQuery (Suc (Suc (Suc (Suc (Suc 0))))) uri
     [OperationDefinition OpQuery None []
        [Field None ''hero'' (Some [InlineFragment (Some ''Character'') [Field None ''name'' None]])]]
     exampleSchema printNode verb errorSpec
       = Some (Inl (Error ''not implemented: InlineFragment on Character''))"
  by (simp add: example_defs run_defs run_doc_defs bindR_simps bindE_simps cong: run_congs)

subsection \<open>Where the enum and union declarations go\<close>

text \<open>
  Claim C4, as stated, on the document \<open>{ episode color again }\<close>, whose fields meet
  the enum \<open>Episode\<close> first (twice) and \<open>Color\<close> second. Each enum gets one type
  declaration and one decoder, but the type declarations stand in front in the order
  \<open>Color\<close>, \<open>Episode\<close>, the reverse of first-seen, and the two decoders stand behind
  the operation's three declarations, not ahead of them.
\<close>

theorem enum_declarations_placement_counterexample:
  "declNames (translateQuery (Suc (Suc (Suc (Suc (Suc 0))))) ''u'' enumDocument exampleSchema examplePrint ''GET'' False)
     = Some [''Color'', ''Episode'', ''endpointUrl'', ''AnonymousQuery'', ''anonymousQuery'',
          ''anonymousQueryDecoder'', ''episodeDecoder'', ''colorDecoder'']
   \<and> map fst (collectEnums exampleSchema enumDocument []) = [''Episode'', ''Color'']"
proof -
  from enumDocument_translation
  have "declNames (translateQuery (Suc (Suc (Suc (Suc (Suc 0))))) ''u'' enumDocument exampleSchema examplePrint ''GET'' False)
     = Some [''Color'', ''Episode'', ''endpointUrl'', ''AnonymousQuery'', ''anonymousQuery'',
          ''anonymousQueryDecoder'', ''episodeDecoder'', ''colorDecoder'']"
    by auto
  moreover have "map fst (collectEnums exampleSchema enumDocument []) = [''Episode'', ''Color'']"
    by (simp add: example_defs run_defs run_doc_defs)
  ultimately show ?thesis by simp
qed

lemma objSet_keys:
  "map fst (objSet k v r) = (if k \<in> set (map fst r) then map fst r else map fst r @ [k])"
  by (induction r) (force simp: image_iff)+

lemma objSet_distinct: "distinct (map fst r) \<Longrightarrow> distinct (map fst (objSet k v r))"
  by (simp add: objSet_keys)

lemma objSet_set: "set (objSet k v r) \<subseteq> insert (k, v) (set r)"
  by (induction r) (auto split: if_splits)

lemma collectEnumsForType_registry:
  "distinct (map fst (fst s)) \<and> (\<forall>p \<in> set (fst s). \<exists>n vs. snd p = GraphQLEnumType n vs)
     \<Longrightarrow> distinct (map fst (fst (collectEnumsForType t s)))
         \<and> (\<forall>p \<in> set (fst (collectEnumsForType t s)). \<exists>n vs. snd p = GraphQLEnumType n vs)"
  "distinct (map fst (fst s')) \<and> (\<forall>p \<in> set (fst s'). \<exists>n vs. snd p = GraphQLEnumType n vs)
     \<Longrightarrow> distinct (map fst (fst (collectEnumsForFields fs s')))
         \<and> (\<forall>p \<in> set (fst (collectEnumsForFields fs s')). \<exists>n vs. snd p = GraphQLEnumType n vs)"
proof (induction t s and fs s' rule: collectEnumsForType_collectEnumsForFields.induct)
  case (1 n vs seen seenTypes)
  then show ?case
    using objSet_set [of n "GraphQLEnumType n vs" seen]
    by (auto simp: objSet_distinct)
qed auto

lemma collectEnumsEvent_registry:
  assumes "distinct (map fst r)" and "\<forall>p \<in> set r. \<exists>n vs. snd p = GraphQLEnumType n vs"
  shows "distinct (map fst (collectEnumsEvent ev r))
     \<and> (\<forall>p \<in> set (collectEnumsEvent ev r). \<exists>n vs. snd p = GraphQLEnumType n vs)"
proof (cases ev)
  case (Entering t)
  with assms show ?thesis by simp
next
  case (FieldEntered t)
  show ?thesis
  proof (cases t)
    case None
    with FieldEntered assms show ?thesis by simp
  next
    case (Some ty)
    with FieldEntered assms collectEnumsForType_registry(1) [of "(r, [])" ty]
    show ?thesis by simp
  qed
qed

lemma fold_collectEnumsEvent_registry:
  "distinct (map fst r) \<Longrightarrow> \<forall>p \<in> set r. \<exists>n vs. snd p = GraphQLEnumType n vs
     \<Longrightarrow> distinct (map fst (fold collectEnumsEvent evs r))
         \<and> (\<forall>p \<in> set (fold collectEnumsEvent evs r). \<exists>n vs. snd p = GraphQLEnumType n vs)"
proof (induction evs arbitrary: r)
  case Nil
  then show ?case by simp
next
  case (Cons ev evs)
  from collectEnumsEvent_registry [OF Cons.prems] Cons.IH [of "collectEnumsEvent ev r"]
  show ?case by simp
qed

lemma collectEnums_funpow_registry:
  "distinct (map fst (((collectEnums schema doc) ^^ k) []))
     \<and> (\<forall>p \<in> set (((collectEnums schema doc) ^^ k) []). \<exists>n vs. snd p = GraphQLEnumType n vs)"
proof (induction k)
  case 0
  then show ?case by simp
next
  case (Suc k)
  have "collectEnums schema doc (((collectEnums schema doc) ^^ k) [])
          = fold collectEnumsEvent (visitDocument schema doc) (((collectEnums schema doc) ^^ k) [])"
    by (simp only: collectEnums_def)
  with Suc fold_collectEnumsEvent_registry
      [of "((collectEnums schema doc) ^^ k) []" "visitDocument schema doc"]
  show ?case by simp
qed

lemma collectUnionsEvent_distinct:
  "distinct (map fst r) \<Longrightarrow> distinct (map fst (collectUnionsEvent ev r))"
  by (cases ev) (auto simp: objSet_distinct split: option.splits GraphQLType.splits)

lemma fold_collectUnionsEvent_distinct:
  "distinct (map fst r) \<Longrightarrow> distinct (map fst (fold collectUnionsEvent evs r))"
  by (induction evs arbitrary: r) (simp_all add: collectUnionsEvent_distinct)

lemma collectUnions_funpow_distinct:
  "distinct (map fst (((collectUnions schema doc) ^^ k) []))"
proof (induction k)
  case 0
  then show ?case by simp
next
  case (Suc k)
  have "collectUnions schema doc (((collectUnions schema doc) ^^ k) [])
          = fold collectUnionsEvent (visitDocument schema doc) (((collectUnions schema doc) ^^ k) [])"
    by (simp only: collectUnions_def)
  with Suc fold_collectUnionsEvent_distinct
      [of "((collectUnions schema doc) ^^ k) []" "visitDocument schema doc"]
  show ?case by simp
qed

lemma emitEnums_shape:
  "\<forall>p \<in> set enums. \<exists>n vs. snd p = GraphQLEnumType n vs
     \<Longrightarrow> emitEnums enums ds ex = Inr (ds', ex')
     \<Longrightarrow> \<exists>typeDecls decoderDecls.
           map Inr typeDecls = map enumTypeDecl enums
         \<and> map Inr decoderDecls = map enumDecoderDecl enums
         \<and> ds' = rev typeDecls @ ds @ decoderDecls"
proof (induction enums arbitrary: ds ex)
  case Nil
  then show ?case by simp
next
  case (Cons p enums)
  from Cons.prems(1) obtain key n vs where p: "p = (key, GraphQLEnumType n vs)"
    by (cases p) auto
  from Cons.prems(2) p obtain td dd where td: "walkEnum n vs = Inr td"
    and dd: "decoderForEnum n vs = Inr dd"
    and rest: "emitEnums enums (td # ds @ [dd]) (ex @ [n @ ''(..)'']) = Inr (ds', ex')"
    by (auto simp: bindE_Inr_iff)
  from Cons.prems(1) have "\<forall>p \<in> set enums. \<exists>n vs. snd p = GraphQLEnumType n vs" by simp
  from Cons.IH [OF this rest] obtain tds dds where
    "map Inr tds = map enumTypeDecl enums" "map Inr dds = map enumDecoderDecl enums"
    "ds' = rev tds @ (td # ds @ [dd]) @ dds" by blast
  with p td dd show ?case
    by (intro exI [of _ "td # tds"] exI [of _ "dd # dds"]) simp
qed

lemma emitUnions_shape:
  "emitUnions unions ds ex = (ds', ex')
     \<Longrightarrow> ds' = concat (rev (map unionTypeDecls unions)) @ ds"
proof (induction unions ds ex rule: emitUnions.induct)
  case (1 ds ex)
  then show ?case by simp
next
  case (2 key name types rest ds ex)
  then show ?case by simp
qed simp_all

lemma collectAll_simps:
  "decls (collectAll schema fdm doc st) = decls st"
  "seenEnums (collectAll schema fdm doc st) = collectEnums schema doc (seenEnums st)"
  "seenUnions (collectAll schema fdm doc st) = collectUnions schema doc (seenUnions st)"
  by (simp_all add: collectAll_def)

lemma walkDefinitions_state:
  "walkDefinitions n schema fdm printNode verb errorSpec doc defs st = Some (Inr st')
     \<Longrightarrow> \<exists>more. decls st' = decls st @ more
           \<and> length more = sum_list (map declCount defs)
           \<and> seenEnums st' = ((collectEnums schema doc) ^^ length defs) (seenEnums st)
           \<and> seenUnions st' = ((collectUnions schema doc) ^^ length defs) (seenUnions st)"
proof (induction defs arbitrary: st)
  case Nil
  then show ?case by (simp add: result_simps)
next
  case (Cons d defs)
  show ?case
  proof (cases d)
    case (OperationDefinition operation opName vars selSet)
    with Cons.prems obtain ods ex i1 where
      w: "walkOperationDefinition n schema fdm printNode verb errorSpec operation opName vars selSet
            (exposed st) (typeInfo st) = Some (Inr ((Some ods, ex), i1))"
      and rest: "walkDefinitions n schema fdm printNode verb errorSpec doc defs
            (collectAll schema fdm doc (st\<lparr>decls := decls st @ ods, exposed := ex, typeInfo := i1\<rparr>))
          = Some (Inr st')"
      by (auto simp: bindR_Inr_iff result_simps split: option.splits)
    from walkOperationDefinition_shape [OF w] have len: "length ods = 3" by auto
    from Cons.IH [OF rest] obtain more where
      "decls st' = (decls st @ ods) @ more" "length more = sum_list (map declCount defs)"
      "seenEnums st' = ((collectEnums schema doc) ^^ length defs) (collectEnums schema doc (seenEnums st))"
      "seenUnions st' = ((collectUnions schema doc) ^^ length defs) (collectUnions schema doc (seenUnions st))"
      by (auto simp: collectAll_simps)
    with len OperationDefinition show ?thesis
      by (intro exI [of _ "ods @ more"]) (simp add: funpow_swap1)
  next
    case (FragmentDefinition name typeCondition selSet)
    with Cons.prems obtain fds i1 where
      w: "walkFragmentDefinition n schema fdm name typeCondition selSet (typeInfo st) = Some (Inr (fds, i1))"
      and rest: "walkDefinitions n schema fdm printNode verb errorSpec doc defs
            (collectAll schema fdm doc (st\<lparr>decls := decls st @ fds, typeInfo := i1\<rparr>))
          = Some (Inr st')"
      by (auto simp: bindR_Inr_iff result_simps)
    from walkFragmentDefinition_length [OF w] have len: "length fds = 2" .
    from Cons.IH [OF rest] obtain more where
      "decls st' = (decls st @ fds) @ more" "length more = sum_list (map declCount defs)"
      "seenEnums st' = ((collectEnums schema doc) ^^ length defs) (collectEnums schema doc (seenEnums st))"
      "seenUnions st' = ((collectUnions schema doc) ^^ length defs) (collectUnions schema doc (seenUnions st))"
      by (auto simp: collectAll_simps)
    with len FragmentDefinition show ?thesis
      by (intro exI [of _ "fds @ more"]) (simp add: funpow_swap1)
  qed
qed

text \<open>
  Claim C4, amended. Whenever a document translates, its declarations are, in this
  order: the union type declarations, one for each union seen, in reverse first-seen
  order; the enum type declarations, one for each enum seen, in reverse first-seen
  order; the endpoint constant; the declarations of the definitions (three for an
  operation, two for a fragment); and the enum decoders, one for each enum seen, in
  first-seen order. The enums and unions seen are those the collectors gather, run once
  per definition, and no name occurs twice among them, however many fields refer to it.
\<close>

theorem enum_and_union_declarations_placement:
  assumes "translateQuery n uri doc schema printNode verb errorSpec = Some (Inr (ds, expose))"
  shows "\<exists>defDecls typeDecls decoderDecls.
           ds = concat (rev (map unionTypeDecls (((collectUnions schema doc) ^^ length doc) [])))
                @ rev typeDecls
                @ [ElmFunctionDecl ''endpointUrl'' [] (ElmTypeName ''String'') (''\"'' @ uri @ ''\"'')]
                @ defDecls
                @ decoderDecls
         \<and> length defDecls = sum_list (map declCount doc)
         \<and> map Inr typeDecls = map enumTypeDecl (((collectEnums schema doc) ^^ length doc) [])
         \<and> map Inr decoderDecls = map enumDecoderDecl (((collectEnums schema doc) ^^ length doc) [])
         \<and> distinct (map fst (((collectEnums schema doc) ^^ length doc) []))
         \<and> distinct (map fst (((collectUnions schema doc) ^^ length doc) []))"
proof -
  let ?d0 = "ElmFunctionDecl ''endpointUrl'' [] (ElmTypeName ''String'') (''\"'' @ uri @ ''\"'')"
  let ?enums = "((collectEnums schema doc) ^^ length doc) []"
  let ?unions = "((collectUnions schema doc) ^^ length doc) []"
  from assms obtain st ex1 ds1 ex2 where
    w: "walkDefinitions n schema (buildFragmentDefinitionMap doc Map.empty) printNode verb errorSpec doc doc
          \<lparr>decls = [?d0], exposed = [], seenFragments = [], seenEnums = [], seenUnions = [],
            typeInfo = newTypeInfo\<rparr> = Some (Inr st)"
    and e: "emitEnums (seenEnums st) (decls st) ex1 = Inr (ds1, ex2)"
    and u: "emitUnions (seenUnions st) ds1 ex2 = (ds, expose)"
    by (auto simp: translateQuery_def walkQueryDocument_def Let_def bindR_Inr_iff result_simps)
  from walkDefinitions_state [OF w] obtain more where
    st: "decls st = [?d0] @ more" "length more = sum_list (map declCount doc)"
        "seenEnums st = ?enums" "seenUnions st = ?unions"
    by auto
  have reg: "distinct (map fst ?enums)" "\<forall>p \<in> set ?enums. \<exists>n vs. snd p = GraphQLEnumType n vs"
    using collectEnums_funpow_registry [where schema = schema and doc = doc and k = "length doc"] by blast+
  from emitEnums_shape [OF reg(2) e [unfolded st]] obtain tds dds where
    t: "map Inr tds = map enumTypeDecl ?enums" "map Inr dds = map enumDecoderDecl ?enums"
       "ds1 = rev tds @ ([?d0] @ more) @ dds" by blast
  from emitUnions_shape [OF u [unfolded st]] have "ds = concat (rev (map unionTypeDecls ?unions)) @ ds1" .
  with t st reg(1) collectUnions_funpow_distinct [where schema = schema and doc = doc and k = "length doc"] show ?thesis
    by (intro exI [of _ more] exI [of _ tds] exI [of _ dds]) simp
qed

theorem enum_and_union_declarations_placement_witness:
  "\<exists>ds expose defDecls typeDecls decoderDecls.
      translateQuery (Suc (Suc (Suc (Suc (Suc 0))))) ''u'' enumDocument exampleSchema examplePrint ''GET'' False
        = Some (Inr (ds, expose))
    \<and> ds = concat (rev (map unionTypeDecls
                (((collectUnions exampleSchema enumDocument) ^^ length enumDocument) [])))
           @ rev typeDecls
           @ [ElmFunctionDecl ''endpointUrl'' [] (ElmTypeName ''String'') (''\"'' @ ''u'' @ ''\"'')]
           @ defDecls
           @ decoderDecls
    \<and> length defDecls = sum_list (map declCount enumDocument)
    \<and> map Inr typeDecls
        = map enumTypeDecl (((collectEnums exampleSchema enumDocument) ^^ length enumDocument) [])
    \<and> map Inr decoderDecls
        = map enumDecoderDecl (((collectEnums exampleSchema enumDocument) ^^ length enumDocument) [])
    \<and> distinct (map fst (((collectEnums exampleSchema enumDocument) ^^ length enumDocument) []))
    \<and> distinct (map fst (((collectUnions exampleSchema enumDocument) ^^ length enumDocument) []))"
proof -
  from enumDocument_translation obtain ds expose where run:
    "translateQuery (Suc (Suc (Suc (Suc (Suc 0))))) ''u'' enumDocument exampleSchema examplePrint ''GET'' False
       = Some (Inr (ds, expose))" by blast
  from enum_and_union_declarations_placement [OF run] run show ?thesis by blast
qed

subsection \<open>Fuel\<close>

text \<open>
  The fuel only bounds how deep the walkers follow the fragment map. More fuel never
  changes an outcome that less fuel already gave: this holds of every loop given it
  holds of the walker the loop calls, and so of every walker, by induction on the fuel.
\<close>

lemma fuelLe_refl [simp]: "fuelLe r r"
  by (simp add: fuelLe_def split: option.splits)

lemma fuelLe_None [simp]: "fuelLe None r"
  by (simp add: fuelLe_def)

lemma fuelLe_trans: "fuelLe a b \<Longrightarrow> fuelLe b c \<Longrightarrow> fuelLe a c"
  by (auto simp: fuelLe_def split: option.splits)

lemma fuelLe_bindR:
  assumes "fuelLe m m'" and "\<And>x. fuelLe (f x) (f' x)"
  shows "fuelLe (bindR m f) (bindR m' f')"
proof (cases m)
  case None
  then show ?thesis by (simp add: bindR_def)
next
  case (Some v)
  with assms(1) have "m' = Some v" by (simp add: fuelLe_def)
  with Some assms(2) show ?thesis
    by (cases v) (simp_all add: bindR_def)
qed

lemma fuelLe_Some: "fuelLe r r' \<Longrightarrow> r = Some x \<Longrightarrow> r' = Some x"
  by (simp add: fuelLe_def)

lemma walkSelections_mono:
  assumes "\<And>al name ss i. fuelLe (fw al name ss i) (fw' al name ss i)"
  shows "fuelLe (walkSelections fw sels info) (walkSelections fw' sels info)"
proof (induction sels arbitrary: info)
  case Nil
  then show ?case by simp
next
  case (Cons sel sels)
  then show ?case
    by (cases sel) (auto intro!: fuelLe_bindR assms)
qed

lemma walkUnionSelections_mono:
  assumes "\<And>s i. fuelLe (sw s i) (sw' s i)"
  shows "fuelLe (walkUnionSelections sw schema fdm sels tm h info)
           (walkUnionSelections sw' schema fdm sels tm h info)"
proof (induction sels arbitrary: tm h info)
  case Nil
  then show ?case by simp
next
  case (Cons sel sels)
  then show ?case
    by (cases sel) (auto intro!: fuelLe_bindR assms split: option.splits)
qed

lemma type_walkers_mono_Suc:
  "(\<forall>selSet info. fuelLe (walkSelectionSet n schema fdm selSet info)
                          (walkSelectionSet (Suc n) schema fdm selSet info))
   \<and> (\<forall>selSet info. fuelLe (walkUnionSelectionSet n schema fdm selSet info)
                          (walkUnionSelectionSet (Suc n) schema fdm selSet info))
   \<and> (\<forall>al name ss info. fuelLe (walkField n schema fdm al name ss info)
                          (walkField (Suc n) schema fdm al name ss info))"
proof (induction n)
  case 0
  then show ?case by simp
next
  case (Suc n)
  then have ss: "\<And>selSet info. fuelLe (walkSelectionSet n schema fdm selSet info)
                          (walkSelectionSet (Suc n) schema fdm selSet info)"
    and us: "\<And>selSet info. fuelLe (walkUnionSelectionSet n schema fdm selSet info)
                          (walkUnionSelectionSet (Suc n) schema fdm selSet info)"
    and wf: "\<And>al name ss info. fuelLe (walkField n schema fdm al name ss info)
                          (walkField (Suc n) schema fdm al name ss info)"
    by blast+
  have 1: "fuelLe (walkSelectionSet (Suc n) schema fdm selSet info)
                  (walkSelectionSet (Suc (Suc n)) schema fdm selSet info)" for selSet info
    by (simp only: walkSelectionSet.simps Let_def)
       (auto simp del: walkSelectionSet.simps walkUnionSelectionSet.simps walkField.simps
             intro!: fuelLe_bindR walkSelections_mono us wf)
  have 2: "fuelLe (walkUnionSelectionSet (Suc n) schema fdm selSet info)
                  (walkUnionSelectionSet (Suc (Suc n)) schema fdm selSet info)" for selSet info
    by (simp only: walkUnionSelectionSet.simps Let_def)
       (auto simp del: walkSelectionSet.simps walkUnionSelectionSet.simps walkField.simps
             intro!: fuelLe_bindR walkUnionSelections_mono ss)
  have 3: "fuelLe (walkField (Suc n) schema fdm al name ss info)
                  (walkField (Suc (Suc n)) schema fdm al name ss info)" for al name ss info
    by (simp only: walkField.simps Let_def)
       (auto simp del: walkSelectionSet.simps walkUnionSelectionSet.simps walkField.simps
             intro!: fuelLe_bindR ss split: option.splits)
  from 1 2 3 show ?case by blast
qed

lemma walkSelectionSet_mono:
  "n \<le> m \<Longrightarrow> fuelLe (walkSelectionSet n schema fdm selSet info) (walkSelectionSet m schema fdm selSet info)"
proof (induction m)
  case 0
  then show ?case by simp
next
  case (Suc m)
  show ?case
  proof (cases "n = Suc m")
    case True
    then show ?thesis by simp
  next
    case False
    with Suc have "fuelLe (walkSelectionSet n schema fdm selSet info) (walkSelectionSet m schema fdm selSet info)"
      by simp
    with type_walkers_mono_Suc [of m schema fdm] show ?thesis
      by (blast intro: fuelLe_trans)
  qed
qed

lemma selectionSetFieldsLoop_mono:
  assumes "\<And>s. fuelLe (fo s) (fo' s)"
  shows "fuelLe (selectionSetFieldsLoop fo fdm sels acc) (selectionSetFieldsLoop fo' fdm sels acc)"
proof (induction sels arbitrary: acc)
  case Nil
  then show ?case by simp
next
  case (Cons sel sels)
  then show ?case
    by (cases sel) (auto simp: Let_def intro!: fuelLe_bindR assms split: option.splits)
qed

lemma getSelectionSetFields_mono_Suc:
  "fuelLe (getSelectionSetFields n fdm selSet) (getSelectionSetFields (Suc n) fdm selSet)"
proof (induction n arbitrary: selSet)
  case 0
  then show ?case by simp
next
  case (Suc n)
  show ?case
    by (simp only: getSelectionSetFields.simps)
       (auto simp del: getSelectionSetFields.simps intro!: selectionSetFieldsLoop_mono Suc)
qed

lemma walkSelections_decoder_mono:
  assumes "\<And>al name ss i. fuelLe (fw al name ss i) (fw' al name ss i)"
    and "\<And>s seen i. fuelLe (sw s seen i) (sw' s seen i)"
  shows "fuelLe (walkSelections_decoder fw sw fdm sels seen info)
           (walkSelections_decoder fw' sw' fdm sels seen info)"
proof (induction sels arbitrary: seen info)
  case Nil
  then show ?case by simp
next
  case (Cons sel sels)
  then show ?case
    by (cases sel) (auto simp: Let_def intro!: fuelLe_bindR assms split: option.splits)
qed

lemma walkUnionBranches_mono:
  assumes "\<And>s i. fuelLe (sw s i) (sw' s i)"
    and "\<And>s. fuelLe (fo s) (fo' s)"
  shows "fuelLe (walkUnionBranches sw fo schema fdm union_name sels info)
           (walkUnionBranches sw' fo' schema fdm union_name sels info)"
proof (induction sels arbitrary: info)
  case Nil
  then show ?case by simp
next
  case (Cons sel sels)
  then show ?case
    by (cases sel) (auto simp: Let_def intro!: fuelLe_bindR assms split: option.splits)
qed

lemma decoder_walkers_mono_Suc:
  "(\<forall>selSet seen info. fuelLe (walkSelectionSet_decoder n schema fdm selSet seen info)
                          (walkSelectionSet_decoder (Suc n) schema fdm selSet seen info))
   \<and> (\<forall>al name ss info. fuelLe (walkField_decoder n schema fdm al name ss info)
                          (walkField_decoder (Suc n) schema fdm al name ss info))
   \<and> (\<forall>orig ss info. fuelLe (walkUnion_decoder n schema fdm orig ss info)
                          (walkUnion_decoder (Suc n) schema fdm orig ss info))"
proof (induction n)
  case 0
  then show ?case by simp
next
  case (Suc n)
  then have ss: "\<And>selSet seen info. fuelLe (walkSelectionSet_decoder n schema fdm selSet seen info)
                          (walkSelectionSet_decoder (Suc n) schema fdm selSet seen info)"
    and wf: "\<And>al name ss info. fuelLe (walkField_decoder n schema fdm al name ss info)
                          (walkField_decoder (Suc n) schema fdm al name ss info)"
    and wu: "\<And>orig ss info. fuelLe (walkUnion_decoder n schema fdm orig ss info)
                          (walkUnion_decoder (Suc n) schema fdm orig ss info)"
    by blast+
  note gs = getSelectionSetFields_mono_Suc
  note dels = walkSelectionSet_decoder.simps walkField_decoder.simps walkUnion_decoder.simps
    getSelectionSetFields.simps
  have 1: "fuelLe (walkSelectionSet_decoder (Suc n) schema fdm selSet seen info)
                  (walkSelectionSet_decoder (Suc (Suc n)) schema fdm selSet seen info)" for selSet seen info
    by (simp only: walkSelectionSet_decoder.simps Let_def)
       (auto simp del: dels intro!: fuelLe_bindR walkSelections_decoder_mono ss wf)
  have 2: "fuelLe (walkField_decoder (Suc n) schema fdm al name ss info)
                  (walkField_decoder (Suc (Suc n)) schema fdm al name ss info)" for al name ss info
    by (simp only: walkField_decoder.simps Let_def)
       (auto simp del: dels intro!: fuelLe_bindR ss wu gs split: option.splits)
  have 3: "fuelLe (walkUnion_decoder (Suc n) schema fdm orig ss info)
                  (walkUnion_decoder (Suc (Suc n)) schema fdm orig ss info)" for orig ss info
    by (simp only: walkUnion_decoder.simps Let_def)
       (auto simp del: dels intro!: fuelLe_bindR walkUnionBranches_mono ss gs split: option.splits)
  from 1 2 3 show ?case by blast
qed

lemma foldR_mono:
  assumes "\<And>x s. fuelLe (f x s) (f' x s)"
  shows "fuelLe (foldR f xs s) (foldR f' xs s)"
  by (induction xs arbitrary: s) (auto intro!: fuelLe_bindR assms)

lemma queryFragments_mono_add:
  "fuelLe (queryFragments n fdm selSet frs) (queryFragments (n + k) fdm selSet frs)"
proof (induction n arbitrary: selSet frs)
  case 0
  then show ?case by simp
next
  case (Suc n)
  show ?case
    by (auto intro!: foldR_mono Suc split: Selection.splits option.splits)
qed

lemma queryFragments_mono_Suc:
  "fuelLe (queryFragments n fdm selSet frs) (queryFragments (Suc n) fdm selSet frs)"
  using queryFragments_mono_add [of n fdm selSet frs 1] by simp

lemma decoderForQuery_mono_Suc:
  "fuelLe (decoderForQuery n schema fdm operation opName vars selSet info)
          (decoderForQuery (Suc n) schema fdm operation opName vars selSet info)"
  using decoder_walkers_mono_Suc [of n schema fdm]
  by (auto simp: decoderForQuery_def Let_def simp del: walkSelectionSet_decoder.simps
           intro!: fuelLe_bindR)

lemma walkOperationDefinition_mono_Suc:
  "fuelLe (walkOperationDefinition n schema fdm printNode verb errorSpec operation opName vars selSet expose info)
          (walkOperationDefinition (Suc n) schema fdm printNode verb errorSpec operation opName vars selSet expose info)"
  using type_walkers_mono_Suc [of n schema fdm]
  unfolding walkOperationDefinition_def Let_def
  by (auto simp del: walkSelectionSet.simps queryFragments.simps
           intro!: fuelLe_bindR queryFragments_mono_Suc decoderForQuery_mono_Suc)

lemma walkFragmentDefinition_mono_Suc:
  "fuelLe (walkFragmentDefinition n schema fdm name typeCondition selSet info)
          (walkFragmentDefinition (Suc n) schema fdm name typeCondition selSet info)"
  using type_walkers_mono_Suc [of n schema fdm]
  unfolding walkFragmentDefinition_def Let_def
  by (auto simp del: walkSelectionSet.simps intro!: fuelLe_bindR)

lemma walkDefinitions_mono_Suc:
  "fuelLe (walkDefinitions n schema fdm printNode verb errorSpec doc defs st)
          (walkDefinitions (Suc n) schema fdm printNode verb errorSpec doc defs st)"
proof (induction defs arbitrary: st)
  case Nil
  then show ?case by simp
next
  case (Cons d defs)
  then show ?case
    by (cases d)
       (auto intro!: fuelLe_bindR walkOperationDefinition_mono_Suc walkFragmentDefinition_mono_Suc
             split: option.splits)
qed

lemma translateQuery_mono_Suc:
  "fuelLe (translateQuery n uri doc schema printNode verb errorSpec)
          (translateQuery (Suc n) uri doc schema printNode verb errorSpec)"
  unfolding translateQuery_def walkQueryDocument_def Let_def
  by (auto intro!: fuelLe_bindR walkDefinitions_mono_Suc)

lemma translateQuery_mono:
  "n \<le> m \<Longrightarrow> fuelLe (translateQuery n uri doc schema printNode verb errorSpec)
                     (translateQuery m uri doc schema printNode verb errorSpec)"
proof (induction m)
  case 0
  then show ?case by simp
next
  case (Suc m)
  show ?case
  proof (cases "n = Suc m")
    case True
    then show ?thesis by simp
  next
    case False
    with Suc have "fuelLe (translateQuery n uri doc schema printNode verb errorSpec)
                     (translateQuery m uri doc schema printNode verb errorSpec)" by simp
    then show ?thesis
      using translateQuery_mono_Suc [of m uri doc schema printNode verb errorSpec]
      by (rule fuelLe_trans)
  qed
qed

text \<open>
  So the outcome of a translation that ends does not depend on the fuel it was given.
\<close>

lemma translateQuery_fuel_independent:
  assumes "translateQuery n uri doc schema printNode verb errorSpec = Some r1"
    and "translateQuery m uri doc schema printNode verb errorSpec = Some r2"
  shows "r1 = r2"
proof (cases "n \<le> m")
  case True
  from fuelLe_Some [OF translateQuery_mono [OF True] assms(1)] assms(2) show ?thesis by simp
next
  case False
  then have "m \<le> n" by simp
  from fuelLe_Some [OF translateQuery_mono [OF this] assms(2)] assms(1) show ?thesis by simp
qed
subsection \<open>Duplicate fields and fragment spreads\<close>

text \<open>
  Claim C3, as stated, on the selection set \<open>{ name ...who }\<close> inside \<open>hero\<close>, where the
  fragment \<open>who\<close> selects \<open>name\<close> and \<open>id\<close>. The decoder expands the spread and
  names the fields \<open>name\<close>, \<open>id\<close>. The type mapping does not expand it: its record
  holds the one field \<open>name\<close> and the spread stays a name, to become the type
  \<open>Who_ { name : Maybe String }\<close>; and \<open>Who_\<close>, the alias the fragment declares, is an
  extensible record that has \<open>name\<close> as well. The two walkers do not produce the same
  fields.
\<close>

theorem selection_fields_counterexample:
  "walkSelectionSet (Suc (Suc (Suc 0))) exampleSchema exampleFragments [Field None ''name'' None, FragmentSpread ''who''] heroInfo
     = Some (Inr (([(''name'', ElmTypeApp ''Maybe'' [ElmTypeName ''String''])], [''who''], None), heroInfo))
   \<and> getSelectionSetFields (Suc (Suc (Suc 0))) exampleFragments [Field None ''name'' None, FragmentSpread ''who'']
     = Some (Inr [''name'', ''id''])
   \<and> walkFragmentDefinition (Suc (Suc (Suc 0))) exampleSchema exampleFragments ''who'' ''Character''
       [Field None ''name'' None, Field None ''id'' None] newTypeInfo
     = Some (Inr ([ElmTypeAliasDecl ''Who_''
                     (ElmTypeRecord [(''name'', ElmTypeApp ''Maybe'' [ElmTypeName ''String'']),
                                     (''id'', ElmTypeName ''String'')] (Some ''a'')) [''a''],
                   ElmTypeAliasDecl ''Who'' (ElmTypeApp ''Who_'' [ElmTypeRecord [] None]) []],
                  newTypeInfo))"
  by (simp add: example_defs run_defs run_doc_defs bindR_simps bindE_simps cong: run_congs)

lemma pushNew_append: "pushNew acc (xs @ ys) = pushNew (pushNew acc xs) ys"
  by (induction xs arbitrary: acc) simp_all

lemma filter_firstOccurrences: "filter P (firstOccurrences xs) = firstOccurrences (filter P xs)"
proof (induction xs)
  case Nil
  then show ?case by simp
next
  case (Cons x xs)
  show ?case
  proof (cases "P x")
    case True
    have "filter P (filter (\<lambda>y. y \<noteq> x) (firstOccurrences xs))
            = filter (\<lambda>y. y \<noteq> x) (filter P (firstOccurrences xs))"
      by (simp add: conj_commute)
    with True Cons show ?thesis by simp
  next
    case False
    then have "filter P (filter (\<lambda>y. y \<noteq> x) (firstOccurrences xs)) = filter P (firstOccurrences xs)"
      by (auto intro: filter_cong)
    with False Cons show ?thesis by simp
  qed
qed

lemma pushNew_firstOccurrences:
  "pushNew acc xs = acc @ firstOccurrences (filter (\<lambda>x. x \<notin> set acc) xs)"
proof (induction xs arbitrary: acc)
  case Nil
  then show ?case by simp
next
  case (Cons x xs)
  show ?case
  proof (cases "x \<in> set acc")
    case True
    with Cons [of acc] show ?thesis by simp
  next
    case False
    have "filter (\<lambda>y. y \<noteq> x) (filter (\<lambda>y. y \<notin> set acc) xs)
            = filter (\<lambda>y. y \<notin> set (acc @ [x])) xs"
      by (auto intro: filter_cong)
    with False Cons [of "acc @ [x]"] show ?thesis
      by (simp add: filter_firstOccurrences)
  qed
qed

lemma pushNew_Nil: "pushNew [] xs = firstOccurrences xs"
  by (simp add: pushNew_firstOccurrences)

lemma set_firstOccurrences [simp]: "set (firstOccurrences xs) = set xs"
  by (induction xs) auto

lemma distinct_firstOccurrences [simp]: "distinct (firstOccurrences xs)"
  by (induction xs) auto

lemma firstOccurrences_distinct: "distinct xs \<Longrightarrow> firstOccurrences xs = xs"
  by (induction xs) (auto intro: filter_True)

lemma firstOccurrences_idem: "firstOccurrences (firstOccurrences xs) = firstOccurrences xs"
  by (simp add: firstOccurrences_distinct)

lemma pushNew_pushNew_Nil: "pushNew acc (pushNew [] xs) = pushNew acc xs"
  by (simp add: pushNew_firstOccurrences [of acc] pushNew_Nil filter_firstOccurrences
        firstOccurrences_idem)

lemma filter_firstFields:
  "filter (\<lambda>g. P (fieldKey g)) (firstFields fs) = firstFields (filter (\<lambda>g. P (fieldKey g)) fs)"
proof (induction fs)
  case Nil
  then show ?case by simp
next
  case (Cons f fs)
  show ?case
  proof (cases "P (fieldKey f)")
    case True
    have "filter (\<lambda>g. P (fieldKey g)) (filter (\<lambda>g. fieldKey g \<noteq> fieldKey f) (firstFields fs))
            = filter (\<lambda>g. fieldKey g \<noteq> fieldKey f) (filter (\<lambda>g. P (fieldKey g)) (firstFields fs))"
      by (simp add: conj_commute)
    with True Cons show ?thesis by simp
  next
    case False
    then have "filter (\<lambda>g. P (fieldKey g)) (filter (\<lambda>g. fieldKey g \<noteq> fieldKey f) (firstFields fs))
                 = filter (\<lambda>g. P (fieldKey g)) (firstFields fs)"
      by (auto intro: filter_cong)
    with False Cons show ?thesis by simp
  qed
qed

lemma map_fieldKey_firstFields: "map fieldKey (firstFields fs) = firstOccurrences (map fieldKey fs)"
proof (induction fs)
  case Nil
  then show ?case by simp
next
  case (Cons f fs)
  have "map fieldKey (filter (\<lambda>g. fieldKey g \<noteq> fieldKey f) (firstFields fs))
          = filter (\<lambda>y. y \<noteq> fieldKey f) (map fieldKey (firstFields fs))"
    by (simp add: filter_map comp_def)
  with Cons show ?case by simp
qed

lemma newFields_Nil [simp]: "newFields seen [] = []"
  by (simp add: newFields_def)

lemma newFields_empty: "newFields [] fs = firstFields fs"
  by (simp add: newFields_def)

lemma newFields_Cons:
  "newFields seen (f # fs)
     = (if fieldKey f \<in> set seen then newFields seen fs
        else f # newFields (seen @ [fieldKey f]) fs)"
proof (cases "fieldKey f \<in> set seen")
  case True
  then show ?thesis by (simp add: newFields_def)
next
  case False
  have "filter (\<lambda>g. fieldKey g \<noteq> fieldKey f) (filter (\<lambda>g. fieldKey g \<notin> set seen) fs)
          = filter (\<lambda>g. fieldKey g \<notin> set (seen @ [fieldKey f])) fs"
    by (auto intro: filter_cong)
  with False show ?thesis
    by (simp add: newFields_def filter_firstFields [of "\<lambda>k. k \<noteq> fieldKey f"])
qed

lemma newFields_append:
  "newFields seen (xs @ ys)
     = newFields seen xs @ newFields (seen @ map fieldKey (newFields seen xs)) ys"
  by (induction xs arbitrary: seen) (simp_all add: newFields_Cons)

lemma join_Cons: "join sep (x # xs) = (if xs = [] then x else x @ sep @ join sep xs)"
  by (cases xs) simp_all

lemma join_empty_iff: "\<forall>x\<in>set xs. x \<noteq> [] \<Longrightarrow> (join sep xs = []) = (xs = [])"
  by (cases xs) (simp_all add: join_Cons)

lemma join_append:
  "xs \<noteq> [] \<Longrightarrow> join sep (xs @ ys)
     = (if ys = [] then join sep xs else join sep xs @ sep @ join sep ys)"
  by (induction xs) (auto simp: join_Cons)

lemma join_Cons_cong:
  assumes "\<forall>x\<in>set xs. x \<noteq> []" and "\<forall>y\<in>set ys. y \<noteq> []" and "join sep xs = join sep ys"
  shows "join sep (d # xs) = join sep (d # ys)"
  using assms join_empty_iff [of xs sep] join_empty_iff [of ys sep]
  by (auto simp: join_Cons)

lemma join_spread:
  assumes "\<forall>x\<in>set inner. x \<noteq> []" and "\<forall>x\<in>set xs. x \<noteq> []" and "\<forall>y\<in>set ys. y \<noteq> []"
    and "join sep xs = join sep ys"
  shows "join sep (filter (\<lambda>e. length e > 0) [join sep inner] @ xs) = join sep (inner @ ys)"
proof (cases "inner = []")
  case True
  with assms show ?thesis by simp
next
  case False
  with assms(1) have "join sep inner \<noteq> []" by (simp add: join_empty_iff)
  with False assms join_empty_iff [of xs sep] join_empty_iff [of ys sep] show ?thesis
    by (auto simp: join_Cons join_append)
qed

lemma list_all2_nonempty:
  assumes "list_all2 R fs ds" and "\<And>f d. R f d \<Longrightarrow> d \<noteq> []"
  shows "\<forall>d\<in>set ds. d \<noteq> []"
  using assms by (induction rule: list_all2_induct) auto

lemma selectionSetFieldsLoop_names:
  assumes "\<And>s r. fo s = Some (Inr r)
             \<Longrightarrow> \<exists>fs. expandedFields k fdm s = Some fs
                   \<and> r = pushNew [] (map (\<lambda>f. elmSafeName (fieldKey f)) fs)"
  shows "selectionSetFieldsLoop fo fdm sels acc = Some (Inr r)
           \<Longrightarrow> \<exists>fs. expandedFields (Suc k) fdm sels = Some fs
                 \<and> r = pushNew acc (map (\<lambda>f. elmSafeName (fieldKey f)) fs)"
proof (induction sels arbitrary: acc)
  case Nil
  then show ?case by (simp add: result_simps)
next
  case (Cons sel sels)
  show ?case
  proof (cases sel)
    case (Field al name selectionSet)
    with Cons.prems Cons.IH show ?thesis
      by (cases al) (fastforce simp: Let_def)+
  next
    case (FragmentSpread spreadName)
    with Cons.prems obtain def inner where
      d: "fdm spreadName = Some def" and i: "fo (selectionSetOf def) = Some (Inr inner)"
      and rest: "selectionSetFieldsLoop fo fdm sels (pushNew acc inner) = Some (Inr r)"
      by (auto simp: bindR_Inr_iff result_simps split: option.splits)
    from assms [OF i] obtain xs where xs: "expandedFields k fdm (selectionSetOf def) = Some xs"
      "inner = pushNew [] (map (\<lambda>f. elmSafeName (fieldKey f)) xs)" by blast
    from Cons.IH [OF rest] obtain ys where ys: "expandedFields (Suc k) fdm sels = Some ys"
      "r = pushNew (pushNew acc inner) (map (\<lambda>f. elmSafeName (fieldKey f)) ys)" by blast
    from xs ys d FragmentSpread show ?thesis
      by (simp add: pushNew_append pushNew_pushNew_Nil)
  next
    case (InlineFragment typeCondition selectionSet)
    with Cons.prems show ?thesis by (simp add: result_simps)
  qed
qed

lemma getSelectionSetFields_names:
  "getSelectionSetFields n fdm selSet = Some (Inr r)
     \<Longrightarrow> \<exists>fs. expandedFields n fdm selSet = Some fs
           \<and> r = pushNew [] (map (\<lambda>f. elmSafeName (fieldKey f)) fs)"
proof (induction n arbitrary: selSet r)
  case 0
  then show ?case by simp
next
  case (Suc n)
  from Suc.prems have "selectionSetFieldsLoop (getSelectionSetFields n fdm) fdm selSet [] = Some (Inr r)"
    by simp
  from selectionSetFieldsLoop_names [OF Suc.IH this] show ?case by simp
qed

lemma walkSelections_decoder_fields:
  assumes sw: "\<And>s seen i e seen' i'. sw s seen i = Some (Inr ((e, seen'), i'))
             \<Longrightarrow> \<exists>fs ds. expandedFields k fdm s = Some fs
                   \<and> seen' = seen @ map fieldKey (newFields seen fs)
                   \<and> list_all2 R (newFields seen fs) ds \<and> e = join sep ds"
    and fw: "\<And>al name ss i d i'. fw al name ss i = Some (Inr (d, i')) \<Longrightarrow> R (Field al name ss) d"
    and ne: "\<And>f d. R f d \<Longrightarrow> d \<noteq> []"
  shows "walkSelections_decoder fw sw fdm sels seen info = Some (Inr ((exprs, seen'), info'))
           \<Longrightarrow> \<exists>fs ds. expandedFields (Suc k) fdm sels = Some fs
                 \<and> seen' = seen @ map fieldKey (newFields seen fs)
                 \<and> list_all2 R (newFields seen fs) ds
                 \<and> join sep (filter (\<lambda>e. length e > 0) exprs) = join sep ds"
proof (induction sels arbitrary: seen info exprs)
  case Nil
  then show ?case by (simp add: result_simps)
next
  case (Cons sel sels)
  show ?case
  proof (cases sel)
    case (Field al name selectionSet)
    show ?thesis
    proof (cases "fieldKey sel \<in> set seen")
      case True
      with Field Cons.prems have
        "walkSelections_decoder fw sw fdm sels seen info = Some (Inr ((exprs, seen'), info'))"
        by (simp add: Let_def)
      from Cons.IH [OF this] True Field show ?thesis
        by (auto simp: newFields_Cons)
    next
      case False
      with Field Cons.prems obtain d i1 rest where
        f: "fw al name selectionSet info = Some (Inr (d, i1))"
        and r: "walkSelections_decoder fw sw fdm sels (seen @ [fieldKey sel]) i1
                  = Some (Inr ((rest, seen'), info'))"
        and e: "exprs = d # rest"
        by (auto simp: Let_def bindR_Inr_iff result_simps)
      from fw [OF f] have rd: "R sel d" using Field by simp
      from ne [OF rd] have dne: "d \<noteq> []" .
      from Cons.IH [OF r] obtain fs ds where
        fs: "expandedFields (Suc k) fdm sels = Some fs"
        and s: "seen' = (seen @ [fieldKey sel]) @ map fieldKey (newFields (seen @ [fieldKey sel]) fs)"
        and l: "list_all2 R (newFields (seen @ [fieldKey sel]) fs) ds"
        and j: "join sep (filter (\<lambda>e. length e > 0) rest) = join sep ds"
        by blast
      from list_all2_nonempty [OF l ne] have dsne: "\<forall>d\<in>set ds. d \<noteq> []" .
      have "join sep (d # filter (\<lambda>e. length e > 0) rest) = join sep (d # ds)"
        by (rule join_Cons_cong) (use dsne j in auto)
      with dne e have j': "join sep (filter (\<lambda>e. length e > 0) exprs) = join sep (d # ds)"
        by simp
      from fs Field have "expandedFields (Suc k) fdm (sel # sels) = Some (sel # fs)" by simp
      moreover from False s have "seen' = seen @ map fieldKey (newFields seen (sel # fs))"
        by (simp add: newFields_Cons)
      moreover from False l rd have "list_all2 R (newFields seen (sel # fs)) (d # ds)"
        by (simp add: newFields_Cons)
      ultimately show ?thesis using j' by blast
    qed
  next
    case (FragmentSpread spreadName)
    with Cons.prems obtain def e seen1 i1 rest where
      d: "fdm spreadName = Some def"
      and w: "sw (selectionSetOf def) seen info = Some (Inr ((e, seen1), i1))"
      and r: "walkSelections_decoder fw sw fdm sels seen1 i1 = Some (Inr ((rest, seen'), info'))"
      and ex: "exprs = e # rest"
      by (auto simp: bindR_Inr_iff result_simps split: option.splits)
    from sw [OF w] obtain xs ds1 where
      xs: "expandedFields k fdm (selectionSetOf def) = Some xs"
      and s1: "seen1 = seen @ map fieldKey (newFields seen xs)"
      and l1: "list_all2 R (newFields seen xs) ds1" and e: "e = join sep ds1"
      by blast
    from Cons.IH [OF r] obtain ys ds2 where
      ys: "expandedFields (Suc k) fdm sels = Some ys"
      and s2: "seen' = seen1 @ map fieldKey (newFields seen1 ys)"
      and l2: "list_all2 R (newFields seen1 ys) ds2"
      and j: "join sep (filter (\<lambda>e. length e > 0) rest) = join sep ds2"
      by blast
    from list_all2_nonempty [OF l1 ne] have ne1: "\<forall>d\<in>set ds1. d \<noteq> []" .
    from list_all2_nonempty [OF l2 ne] have ne2: "\<forall>d\<in>set ds2. d \<noteq> []" .
    have js: "join sep (filter (\<lambda>e. length e > 0) [join sep ds1] @ filter (\<lambda>e. length e > 0) rest)
            = join sep (ds1 @ ds2)"
      by (rule join_spread) (use ne1 ne2 j in auto)
    have split: "filter (\<lambda>e. length e > 0) exprs
            = filter (\<lambda>e. length e > 0) [join sep ds1] @ filter (\<lambda>e. length e > 0) rest"
      using ex e by simp
    have j': "join sep (filter (\<lambda>e. length e > 0) exprs) = join sep (ds1 @ ds2)"
      unfolding split by (rule js)
    from xs ys d FragmentSpread have "expandedFields (Suc k) fdm (sel # sels) = Some (xs @ ys)"
      by simp
    moreover from s1 s2 have "seen' = seen @ map fieldKey (newFields seen (xs @ ys))"
      by (simp add: newFields_append)
    moreover from l1 l2 s1 have "list_all2 R (newFields seen (xs @ ys)) (ds1 @ ds2)"
      by (simp add: newFields_append list_all2_appendI)
    ultimately show ?thesis using j' by blast
  next
    case (InlineFragment typeCondition selectionSet)
    with Cons.prems show ?thesis by (simp add: result_simps)
  qed
qed

lemma walkUnion_decoder_nonempty:
  "walkUnion_decoder n schema fdm orig ss info = Some (Inr (d, info')) \<Longrightarrow> d \<noteq> []"
  by (cases n) (auto simp: Let_def bindR_Inr_iff result_simps split: option.splits)

lemma walkField_decoder_nonempty:
  "walkField_decoder n schema fdm al name ss info = Some (Inr (d, info')) \<Longrightarrow> d \<noteq> []"
proof (cases n)
  case 0
  then show "walkField_decoder n schema fdm al name ss info = Some (Inr (d, info')) \<Longrightarrow> d \<noteq> []"
    by simp
next
  case (Suc k)
  assume "walkField_decoder n schema fdm al name ss info = Some (Inr (d, info'))"
  with Suc show "d \<noteq> []"
    by (auto simp: Let_def bindR_Inr_iff result_simps
             dest: walkUnion_decoder_nonempty split: if_splits option.splits
             simp del: walkUnion_decoder.simps walkSelectionSet_decoder.simps getSelectionSetFields.simps)
qed

lemma walkField_decoder_Suc:
  assumes "walkField_decoder n schema fdm al name ss info = Some r"
  shows "walkField_decoder (Suc n) schema fdm al name ss info = Some r"
proof -
  from decoder_walkers_mono_Suc [of n schema fdm]
  have "fuelLe (walkField_decoder n schema fdm al name ss info)
               (walkField_decoder (Suc n) schema fdm al name ss info)"
    by blast
  from fuelLe_Some [OF this assms] show ?thesis .
qed

lemma walkSelectionSet_decoder_fields:
  "walkSelectionSet_decoder n schema fdm selSet seen info = Some (Inr ((expr, seen'), info'))
     \<Longrightarrow> \<exists>fs ds. expandedFields n fdm selSet = Some fs
           \<and> seen' = seen @ map fieldKey (newFields seen fs)
           \<and> list_all2 (\<lambda>field decoder. \<exists>al name ss i i'. field = Field al name ss
                 \<and> walkField_decoder n schema fdm al name ss i = Some (Inr (decoder, i')))
               (newFields seen fs) ds
           \<and> expr = join (nl @ ''        |> apply '') ds"
proof (induction n arbitrary: selSet seen info expr seen' info')
  case 0
  then show ?case by simp
next
  case (Suc n)
  let ?R = "\<lambda>field decoder. \<exists>al name ss i i'. field = Field al name ss
              \<and> walkField_decoder (Suc n) schema fdm al name ss i = Some (Inr (decoder, i'))"
  from Suc.prems obtain exprs i1 where
    loop: "walkSelections_decoder (walkField_decoder n schema fdm) (walkSelectionSet_decoder n schema fdm)
       fdm selSet seen (enterSelectionSet info) = Some (Inr ((exprs, seen'), i1))"
    and expr: "expr = join (nl @ ''        |> apply '') (filter (\<lambda>e. length e > 0) exprs)"
    by (auto simp: bindR_Inr_iff result_simps)
  have sw: "\<exists>fs ds. expandedFields n fdm s = Some fs
                   \<and> sn' = sn @ map fieldKey (newFields sn fs)
                   \<and> list_all2 ?R (newFields sn fs) ds \<and> e = join (nl @ ''        |> apply '') ds"
    if "walkSelectionSet_decoder n schema fdm s sn i = Some (Inr ((e, sn'), i'))" for s sn i e sn' i'
  proof -
    from Suc.IH [OF that] obtain fs ds where
      a: "expandedFields n fdm s = Some fs" "sn' = sn @ map fieldKey (newFields sn fs)"
         "e = join (nl @ ''        |> apply '') ds"
      and l: "list_all2 (\<lambda>field decoder. \<exists>al name ss i i'. field = Field al name ss
                 \<and> walkField_decoder n schema fdm al name ss i = Some (Inr (decoder, i')))
               (newFields sn fs) ds"
      by blast
    from l have "list_all2 ?R (newFields sn fs) ds"
      by (rule list_all2_mono) (blast intro: walkField_decoder_Suc)
    with a show ?thesis by blast
  qed
  have fw: "?R (Field al name ss) d"
    if "walkField_decoder n schema fdm al name ss i = Some (Inr (d, i'))" for al name ss i d i'
    using walkField_decoder_Suc [OF that] by blast
  have ne: "d \<noteq> []" if "?R f d" for f d
    using that by (blast dest: walkField_decoder_nonempty)
  from walkSelections_decoder_fields
    [of "walkSelectionSet_decoder n schema fdm" n fdm ?R "nl @ ''        |> apply ''"
        "walkField_decoder n schema fdm", OF sw fw ne loop]
  show ?case using expr by auto
qed

lemma walkField_name:
  "walkField n schema fdm al name ss info = Some (Inr (fd, info'))
     \<Longrightarrow> fst fd = elmSafeName (case al of None \<Rightarrow> name | Some a \<Rightarrow> a)"
  by (cases n) (auto simp: Let_def bindR_Inr_iff result_simps split: option.splits)

lemma walkSelections_direct:
  assumes "\<And>al name ss i fd i'. fw al name ss i = Some (Inr (fd, i'))
             \<Longrightarrow> fst fd = elmSafeName (case al of None \<Rightarrow> name | Some a \<Rightarrow> a)"
  shows "walkSelections fw sels info = Some (Inr ((flds, spreads), info'))
           \<Longrightarrow> spreads = directSpreads sels \<and> map fst flds = map elmSafeName (directFieldNames sels)"
proof (induction sels arbitrary: info flds spreads)
  case Nil
  then show ?case by (simp add: result_simps)
next
  case (Cons sel sels)
  show ?case
  proof (cases sel)
    case (Field al name selectionSet)
    with Cons.prems obtain fd i1 fs where
      f: "fw al name selectionSet info = Some (Inr (fd, i1))"
      and rest: "walkSelections fw sels i1 = Some (Inr ((fs, spreads), info'))"
      and flds: "flds = fd # fs"
      by (auto simp: bindR_Inr_iff result_simps)
    from assms [OF f] Cons.IH [OF rest] flds Field show ?thesis by simp
  next
    case (FragmentSpread spreadName)
    with Cons.prems obtain sp where
      rest: "walkSelections fw sels info = Some (Inr ((flds, sp), info'))"
      and spreads: "spreads = spreadName # sp"
      by (auto simp: bindR_Inr_iff result_simps)
    from Cons.IH [OF rest] spreads FragmentSpread show ?thesis by simp
  next
    case (InlineFragment typeCondition selectionSet)
    with Cons.prems show ?thesis by (simp add: result_simps split: option.splits)
  qed
qed

lemma walkSelectionSet_direct:
  assumes "\<not> isUnionType (unwrapNonNull (unwrapList (unwrapNonNull (getType info))))"
    and "walkSelectionSet n schema fdm selSet info = Some (Inr ((flds, spreads, un), info'))"
  shows "spreads = directSpreads selSet \<and> map fst flds = map elmSafeName (directFieldNames selSet)
         \<and> un = None"
proof (cases n)
  case 0
  with assms show ?thesis by simp
next
  case (Suc k)
  with assms obtain i1 where
    w: "walkSelections (walkField k schema fdm) selSet (enterSelectionSet info)
       = Some (Inr ((flds, spreads), i1))" and u: "un = None"
    by (auto simp: Let_def bindR_Inr_iff result_simps)
  have "\<And>al name ss i fd i'. walkField k schema fdm al name ss i = Some (Inr (fd, i'))
          \<Longrightarrow> fst fd = elmSafeName (case al of None \<Rightarrow> name | Some a \<Rightarrow> a)"
    by (rule walkField_name)
  from walkSelections_direct [of "walkField k schema fdm", OF this w] u show ?thesis
    by simp
qed

text \<open>
  Claim C3, amended. In the decoder, the fields of a selection set are those of its
  expansion (every fragment spread replaced by the fields of its fragment), in
  first-encounter order, each alias-or-name once, the first occurrence kept. The
  decoder \<open>walkSelectionSet\<close> returns is made of one sub-decoder for each of these
  fields and no other, in that order, joined by \<open>|> apply\<close>, each of them a decoder
  \<open>walkField\<close> returns for the field's first occurrence; its \<open>seenFields\<close> are their
  names. \<open>getSelectionSetFields\<close> gives the record constructor the sanitized names of
  the expansion, each once, in first-encounter order. So a selection set that selects
  \<open>name\<close> and spreads a fragment selecting \<open>name\<close> gets one \<open>name\<close> in its decoder.
  The type mapping does not expand spreads: outside a union, \<open>walkSelectionSet\<close>
  returns the names of the spreads in order, and fields whose names are, in the order
  they are first met, the sanitized names of the fields selected directly.
\<close>

theorem decoder_fields_first_occurrence:
  "(walkSelectionSet_decoder n schema fdm selSet [] info = Some (Inr ((expr, seenFields), info'))
      \<longrightarrow> (\<exists>fields decoders. expandedFields n fdm selSet = Some fields
             \<and> seenFields = firstOccurrences (map fieldKey fields)
             \<and> list_all2 (\<lambda>field decoder. \<exists>al name ss i i'. field = Field al name ss
                   \<and> walkField_decoder n schema fdm al name ss i = Some (Inr (decoder, i')))
                 (firstFields fields) decoders
             \<and> expr = join (nl @ ''        |> apply '') decoders))
   \<and> (getSelectionSetFields n fdm selSet = Some (Inr fieldNames)
      \<longrightarrow> (\<exists>fields. expandedFields n fdm selSet = Some fields
             \<and> fieldNames = firstOccurrences (map (\<lambda>f. elmSafeName (fieldKey f)) fields)))
   \<and> (\<not> isUnionType (unwrapNonNull (unwrapList (unwrapNonNull (getType info))))
        \<and> walkSelectionSet n schema fdm selSet info = Some (Inr ((flds, spreads, un), info''))
      \<longrightarrow> spreads = directSpreads selSet
          \<and> firstOccurrences (map fst flds)
              = firstOccurrences (map elmSafeName (directFieldNames selSet))
          \<and> un = None)"
proof (intro conjI impI)
  assume "walkSelectionSet_decoder n schema fdm selSet [] info = Some (Inr ((expr, seenFields), info'))"
  from walkSelectionSet_decoder_fields [OF this]
  show "\<exists>fields decoders. expandedFields n fdm selSet = Some fields
             \<and> seenFields = firstOccurrences (map fieldKey fields)
             \<and> list_all2 (\<lambda>field decoder. \<exists>al name ss i i'. field = Field al name ss
                   \<and> walkField_decoder n schema fdm al name ss i = Some (Inr (decoder, i')))
                 (firstFields fields) decoders
             \<and> expr = join (nl @ ''        |> apply '') decoders"
    by (auto simp: newFields_empty map_fieldKey_firstFields)
next
  assume "getSelectionSetFields n fdm selSet = Some (Inr fieldNames)"
  from getSelectionSetFields_names [OF this]
  show "\<exists>fields. expandedFields n fdm selSet = Some fields
          \<and> fieldNames = firstOccurrences (map (\<lambda>f. elmSafeName (fieldKey f)) fields)"
    by (simp add: pushNew_Nil)
next
  assume a: "\<not> isUnionType (unwrapNonNull (unwrapList (unwrapNonNull (getType info))))
        \<and> walkSelectionSet n schema fdm selSet info = Some (Inr ((flds, spreads, un), info''))"
  from walkSelectionSet_direct [of info n schema fdm selSet flds spreads un info''] a
  have d: "spreads = directSpreads selSet" "map fst flds = map elmSafeName (directFieldNames selSet)"
    "un = None" by blast+
  from d(1) show "spreads = directSpreads selSet" .
  from d(2) show "firstOccurrences (map fst flds)
      = firstOccurrences (map elmSafeName (directFieldNames selSet))" by simp
  from d(3) show "un = None" .
qed

text \<open>
  The selection set \<open>{ name ...who }\<close> inside \<open>hero\<close>: its expansion is \<open>name\<close>, \<open>name\<close>,
  \<open>id\<close>, and its decoder is the decoder of \<open>name\<close> applied to the decoder of \<open>id\<close>.
\<close>

theorem decoder_fields_first_occurrence_witness:
  "\<exists>decoders flds info''.
      walkSelectionSet_decoder (Suc (Suc (Suc 0))) exampleSchema exampleFragments
          [Field None ''name'' None, FragmentSpread ''who''] [] heroInfo
        = Some (Inr ((''(maybe (field \"name\" (string)))'' @ nl @ ''        |> apply (field \"id\" (string))'',
                      [''name'', ''id'']), heroInfo))
    \<and> expandedFields (Suc (Suc (Suc 0))) exampleFragments [Field None ''name'' None, FragmentSpread ''who'']
        = Some [Field None ''name'' None, Field None ''name'' None, Field None ''id'' None]
    \<and> [''name'', ''id'']
        = firstOccurrences (map fieldKey [Field None ''name'' None, Field None ''name'' None, Field None ''id'' None])
    \<and> list_all2 (\<lambda>field decoder. \<exists>al name ss i i'. field = Field al name ss
           \<and> walkField_decoder (Suc (Suc (Suc 0))) exampleSchema exampleFragments al name ss i
               = Some (Inr (decoder, i')))
         [Field None ''name'' None, Field None ''id'' None] decoders
    \<and> ''(maybe (field \"name\" (string)))'' @ nl @ ''        |> apply (field \"id\" (string))''
        = join (nl @ ''        |> apply '') decoders
    \<and> getSelectionSetFields (Suc (Suc (Suc 0))) exampleFragments [Field None ''name'' None, FragmentSpread ''who'']
        = Some (Inr [''name'', ''id''])
    \<and> [''name'', ''id'']
        = firstOccurrences (map (\<lambda>f. elmSafeName (fieldKey f))
            [Field None ''name'' None, Field None ''name'' None, Field None ''id'' None])
    \<and> \<not> isUnionType (unwrapNonNull (unwrapList (unwrapNonNull (getType heroInfo))))
    \<and> walkSelectionSet (Suc (Suc (Suc 0))) exampleSchema exampleFragments
          [Field None ''name'' None, FragmentSpread ''who''] heroInfo
        = Some (Inr ((flds, [''who''], None), info''))
    \<and> [''who''] = directSpreads [Field None ''name'' None, FragmentSpread ''who'']
    \<and> firstOccurrences (map fst flds)
        = firstOccurrences (map elmSafeName (directFieldNames [Field None ''name'' None, FragmentSpread ''who'']))"
proof -
  let ?sel = "[Field None ''name'' None, FragmentSpread ''who'']"
  let ?expanded = "[Field None ''name'' None, Field None ''name'' None, Field None ''id'' None]"
  let ?expr = "''(maybe (field \"name\" (string)))'' @ nl @ ''        |> apply (field \"id\" (string))''"
  have dec: "walkSelectionSet_decoder (Suc (Suc (Suc 0))) exampleSchema exampleFragments ?sel [] heroInfo
        = Some (Inr ((?expr, [''name'', ''id'']), heroInfo))"
    by (simp add: example_defs run_defs bindR_simps bindE_simps cong: run_congs)
  have names: "getSelectionSetFields (Suc (Suc (Suc 0))) exampleFragments ?sel = Some (Inr [''name'', ''id''])"
    by (simp add: example_defs run_defs bindR_simps bindE_simps cong: run_congs)
  have ty: "\<exists>flds info''.
      walkSelectionSet (Suc (Suc (Suc 0))) exampleSchema exampleFragments ?sel heroInfo
        = Some (Inr ((flds, [''who''], None), info''))"
    by (simp add: example_defs run_defs bindR_simps bindE_simps cong: run_congs)
  have scope: "\<not> isUnionType (unwrapNonNull (unwrapList (unwrapNonNull (getType heroInfo))))"
    by (simp add: example_defs run_defs)
  have ex: "expandedFields (Suc (Suc (Suc 0))) exampleFragments ?sel = Some ?expanded"
    by (simp add: example_defs)
  have first: "firstFields ?expanded = [Field None ''name'' None, Field None ''id'' None]"
    by simp
  from ty obtain flds info'' where t:
    "walkSelectionSet (Suc (Suc (Suc 0))) exampleSchema exampleFragments ?sel heroInfo
        = Some (Inr ((flds, [''who''], None), info''))" by blast
  note inst = decoder_fields_first_occurrence
    [where n = "Suc (Suc (Suc 0))" and schema = exampleSchema and fdm = exampleFragments
       and selSet = ?sel and info = heroInfo and expr = ?expr
       and seenFields = "[''name'', ''id'']" and info' = heroInfo and fieldNames = "[''name'', ''id'']"
       and flds = flds and spreads = "[''who'']" and un = None and info'' = info'']
  from inst dec obtain fields decoders where
    f: "expandedFields (Suc (Suc (Suc 0))) exampleFragments ?sel = Some fields"
    and s: "[''name'', ''id''] = firstOccurrences (map fieldKey fields)"
    and l: "list_all2 (\<lambda>field decoder. \<exists>al name ss i i'. field = Field al name ss
           \<and> walkField_decoder (Suc (Suc (Suc 0))) exampleSchema exampleFragments al name ss i
               = Some (Inr (decoder, i')))
         (firstFields fields) decoders"
    and j: "?expr = join (nl @ ''        |> apply '') decoders"
    by blast
  from f ex have fields: "fields = ?expanded"
    by (simp del: expandedFields.simps)
  from s fields have a: "[''name'', ''id''] = firstOccurrences (map fieldKey ?expanded)"
    by (simp only:)
  from l fields first have l':
    "list_all2 (\<lambda>field decoder. \<exists>al name ss i i'. field = Field al name ss
           \<and> walkField_decoder (Suc (Suc (Suc 0))) exampleSchema exampleFragments al name ss i
               = Some (Inr (decoder, i')))
         [Field None ''name'' None, Field None ''id'' None] decoders"
    by (simp only:)
  from inst names obtain fields' where
    "expandedFields (Suc (Suc (Suc 0))) exampleFragments ?sel = Some fields'"
    "[''name'', ''id''] = firstOccurrences (map (\<lambda>f. elmSafeName (fieldKey f)) fields')" by blast
  with ex have b: "[''name'', ''id''] = firstOccurrences (map (\<lambda>f. elmSafeName (fieldKey f)) ?expanded)"
    by (simp del: expandedFields.simps firstOccurrences.simps list.map)
  from inst scope t have c:
    "[''who''] = directSpreads ?sel"
    "firstOccurrences (map fst flds) = firstOccurrences (map elmSafeName (directFieldNames ?sel))"
    by blast+
  from dec ex a l' j names b scope t c show ?thesis by blast
qed
end
